theory Spec2Isabelle
  imports Complex_Main "HOL-Library.Word"
begin

section \<open>Values of the host language\<close>

text \<open>
  The debug adapter is TypeScript. A string is modelled by the list of its code units
  (\<^typ>\<open>string\<close>; a code unit fits \<^typ>\<open>char\<close> below 256). A number is a double that is
  not NaN: a finite double is a real, and the two infinities stand beside them. NaN only
  arises as the result of a failed conversion and is the \<^term>\<open>None\<close> of the conversions
  below. Integers of the protocol (sequence numbers, ids, line numbers, offsets, counts,
  exit codes) are \<^typ>\<open>int\<close>.
\<close>

datatype number = Finite real | PlusInfinity | MinusInfinity

type_synonym byte = "8 word"

text \<open>
  A value produced by \<open>JSON.parse\<close>. An object keeps its keys in insertion order and has
  no duplicate key; where a value may be \<open>undefined\<close>, it is an option and \<open>undefined\<close>
  is \<^term>\<open>None\<close>.
\<close>

datatype json =
    JNull
  | JBool bool
  | JNum number
  | JStr string
  | JArr "json list"
  | JObj "(string \<times> json) list"

text \<open>
  The functions of the platform and of libraries that the adapter calls and does not
  define. They are parameters of the model: every theorem below holds for whatever
  they compute.
  \<^item> \<open>JSON_parse\<close>: \<open>JSON.parse\<close>; \<^term>\<open>None\<close> when it throws a SyntaxError.
  \<^item> \<open>JSON_stringify\<close>: \<open>JSON.stringify\<close>.
  \<^item> \<open>ToString\<close>: the conversion a template literal applies to a value.
  \<^item> \<open>parseFloat\<close> and \<open>ToNumber\<close> (\<open>Number(s)\<close> on a string): \<^term>\<open>None\<close> is NaN.
  \<^item> \<open>Number_toString\<close>: \<open>x.toString(radix)\<close> on a number.
  \<^item> \<open>fromByteArray\<close>: the base64 encoder of base64-js.
\<close>

record js_env =
  JSON_parse :: "string \<Rightarrow> json option"
  JSON_stringify :: "json \<Rightarrow> string"
  ToString :: "json option \<Rightarrow> string"
  parseFloat :: "string \<Rightarrow> number option"
  ToNumber :: "string \<Rightarrow> number option"
  Number_toString :: "number \<Rightarrow> nat \<Rightarrow> string"
  fromByteArray :: "byte list \<Rightarrow> string"

subsection \<open>Strings\<close>

text \<open>
  \<open>String.prototype.trim\<close> removes white space and line terminators from both ends.
  Among the code units below 256 these are TAB, LF, VT, FF, CR, SPACE and NBSP.
\<close>

definition is_white_space :: "char \<Rightarrow> bool" where
  "is_white_space c = (of_char c \<in> {9, 10, 11, 12, 13, 32, 160 :: nat})"

definition trim :: "string \<Rightarrow> string" where
  "trim s = rev (dropWhile is_white_space (rev (dropWhile is_white_space s)))"

text \<open>
  \<open>s.substr(start, len)\<close> for \<open>start \<ge> 0\<close>: at most \<open>len\<close> code units from index
  \<open>start\<close>; a negative \<open>len\<close> counts as 0.
\<close>

definition substr :: "string \<Rightarrow> nat \<Rightarrow> int \<Rightarrow> string" where
  "substr s start len = take (nat len) (drop start s)"

text \<open>\<open>s[0]\<close>: \<open>undefined\<close> on the empty string.\<close>

definition char_at0 :: "string \<Rightarrow> char option" where
  "char_at0 s = (case s of [] \<Rightarrow> None | c # _ \<Rightarrow> Some c)"

section \<open>Runtime values\<close>

type_synonym addr = nat

text \<open>
  \<open>IRuntimeVariableType = number | boolean | string | RuntimeVariable[]\<close>. The children
  of an array value are objects: the array holds their addresses in the store.
\<close>

datatype rt_value =
    VBool bool
  | VNum number
  | VStr string
  | VArr "addr list"

text \<open>\<open>convertToRuntime\<close>: the coercion of the text the client typed into a runtime value.\<close>

definition convertToRuntime :: "js_env \<Rightarrow> string \<Rightarrow> rt_value" where
  "convertToRuntime env value0 =
     (let v = trim value0 in
      if v = ''true'' then VBool True
      else if v = ''false'' then VBool False
      else if char_at0 v = Some (CHR 0x27) \<or> char_at0 v = Some (CHR 0x22)
        then VStr (substr v 1 (int (length v) - 2))
      else (case parseFloat env v of
              Some n \<Rightarrow> VNum n
            | None \<Rightarrow> VStr v))"

subsection \<open>Decimal rendering of protocol integers\<close>

text \<open>
  \<open>n.toString()\<close>, \<open>String(n)\<close> and a template literal render an integer below
  \<open>10\<^sup>2\<^sup>1\<close> in magnitude by its decimal digits, with a minus sign when negative.
\<close>

definition digit_char :: "nat \<Rightarrow> char" where
  "digit_char d = ''0123456789'' ! d"

function show_nat :: "nat \<Rightarrow> string" where
  "show_nat n = (if n < 10 then [digit_char n] else show_nat (n div 10) @ [digit_char (n mod 10)])"
  by pat_completeness auto
termination
  by (relation "measure (\<lambda>n. n)") auto

declare show_nat.simps [simp del]

definition show_int :: "int \<Rightarrow> string" where
  "show_int i = (if i < 0 then ''-'' @ show_nat (nat (- i)) else show_nat (nat i))"

subsection \<open>Objects parsed from JSON\<close>

datatype js_error = SyntaxError | TypeError

text \<open>
  \<open>o.k\<close> for a parsed value \<open>o\<close> and one of the keys the adapter reads (\<open>type\<close>,
  \<open>event\<close>, \<open>command\<close>, \<open>body\<close>, \<open>exitCode\<close>, none of which a prototype defines):
  reading a property of \<open>null\<close> or \<open>undefined\<close> throws a TypeError, an object yields
  the value stored under the key, every other value yields \<open>undefined\<close>.
\<close>

definition get_prop :: "json option \<Rightarrow> string \<Rightarrow> js_error + json option" where
  "get_prop o_opt k =
     (case o_opt of
        None \<Rightarrow> Inl TypeError
      | Some JNull \<Rightarrow> Inl TypeError
      | Some (JObj kvs) \<Rightarrow> Inr (map_of kvs k)
      | Some _ \<Rightarrow> Inr None)"

text \<open>
  \<open>o.k = v\<close> on an object: an existing key keeps its place and takes the new value, a new
  key is added last.
\<close>

fun assign_key :: "(string \<times> json) list \<Rightarrow> string \<Rightarrow> json \<Rightarrow> (string \<times> json) list" where
  "assign_key [] k v = [(k, v)]"
| "assign_key ((k', v') # kvs) k v =
     (if k' = k then (k, v) # kvs else (k', v') # assign_key kvs k v)"

definition set_prop :: "json \<Rightarrow> string \<Rightarrow> json \<Rightarrow> json" where
  "set_prop obj k v = (case obj of JObj kvs \<Rightarrow> JObj (assign_key kvs k v) | _ \<Rightarrow> obj)"

text \<open>The truthiness of a value that may be \<open>undefined\<close>.\<close>

definition truthy :: "json option \<Rightarrow> bool" where
  "truthy v =
     (case v of
        None \<Rightarrow> False
      | Some JNull \<Rightarrow> False
      | Some (JBool b) \<Rightarrow> b
      | Some (JNum n) \<Rightarrow> n \<noteq> Finite 0
      | Some (JStr str) \<Rightarrow> str \<noteq> []
      | Some _ \<Rightarrow> True)"

definition num_of_int :: "int \<Rightarrow> number" where
  "num_of_int i = Finite (of_int i)"

section \<open>The store of runtime variables\<close>

text \<open>
  Modelled from the spec: the class \<open>RuntimeVariable\<close> of \<open>mockRuntime.ts\<close>, which is
  not among the sources. The spec gives a structured runtime value a name, a value that
  is boolean, number, string or an ordered list of child values, optional raw memory
  bytes and an optional reference. The objects are shared between the runtime and the
  handle table and are updated in place, so they live in a store and are named by
  their addresses.
\<close>

record RuntimeVariable =
  rv_name :: string
  rv_value :: rt_value
  rv_memory :: "byte list option"
  rv_reference :: "nat option"

text \<open>
  What a variable handle stands for: \<open>Handles<'locals' | 'globals' | RuntimeVariable>\<close>.
\<close>

datatype handle_value = Locals | Globals | Variable addr

text \<open>
  The class \<open>Handles\<close> of the debug adapter library: \<open>create\<close> hands out the next
  integer, starting at 1000, and \<open>get\<close> looks a number up.
\<close>

record Handles =
  nextHandle :: nat
  handleMap :: "nat \<rightharpoonup> handle_value"

text \<open>
  Modelled from the spec: the breakpoint records and the local variables of
  \<open>MockRuntime\<close> (\<open>mockRuntime.ts\<close>, not among the sources). A breakpoint record has an
  id that is assigned monotonically and never reused, a source line and a verified flag
  that is false until the breakpoint is confirmed.
\<close>

record IRuntimeBreakpoint =
  rbp_id :: int
  rbp_line :: int
  rbp_verified :: bool

record MockRuntime =
  sourceFile :: string
  variables :: "string \<rightharpoonup> addr"
  breakPoints :: "string \<Rightarrow> IRuntimeBreakpoint list"
  breakpointId :: int

section \<open>Messages to the client\<close>

text \<open>
  \<open>Source\<close> as \<open>createSource(filePath)\<close> builds it: the file name and the client path
  are functions of \<open>filePath\<close>, which stands for them here.
\<close>

datatype source = Source string

text \<open>\<open>DebugProtocol.Breakpoint\<close> as the library's \<open>Breakpoint\<close> class builds it.\<close>

record dap_breakpoint =
  bp_verified :: bool
  bp_line :: "int option"
  bp_source :: "source option"
  bp_id :: "int option"

text \<open>
  An event given to \<open>sendEvent\<close>: an object parsed from a line of the backend, or an
  event the adapter builds with a class of the library (each of these is constructed
  with \<open>seq\<close> 0).
\<close>

datatype dap_event =
    Proxied json
  | OutputEvent string string
  | TerminatedEvent
  | InitializedEvent
  | BreakpointEvent string dap_breakpoint
  | InvalidatedEvent "string list"
  | MemoryEvent string int int

text \<open>\<open>DebugProtocol.Variable\<close> as \<open>convertFromRuntime\<close> builds it.\<close>

record dap_variable =
  dv_name :: string
  dv_value :: string
  dv_type :: string
  dv_variablesReference :: nat
  dv_evaluateName :: string
  dv_presentationHint_lazy :: bool
  dv_menuContext :: "string option"
  dv_memoryReference :: "string option"

text \<open>The bodies the adapter gives to the responses it answers itself.\<close>

datatype response_body =
    InitializeBody "string list" "string list"
  | ReadMemoryBody string string int
  | VariableBody dap_variable
  | EvaluateBody string "string option" nat bool

text \<open>
  The response object the library creates for a request and hands to its handler:
  \<open>request_seq\<close> and \<open>command\<close> are the request's, \<open>success\<close> is true and there is no
  body.
\<close>

record response =
  request_seq :: int
  command :: string
  success :: bool
  body :: "response_body option"

text \<open>The argument of \<open>sendErrorResponse\<close>: a \<open>DebugProtocol.Message\<close>.\<close>

record error_message =
  err_id :: int
  err_format :: string
  err_variables :: "(string \<times> string) list"
  err_showUser :: bool

text \<open>
  What the adapter hands to the library for the client, in order: \<open>sendEvent(e)\<close>,
  \<open>sendResponse(r)\<close> with a response of the library or with an object parsed from a
  line of the backend, and \<open>sendErrorResponse(r, m)\<close>.
\<close>

datatype client_message =
    Event dap_event
  | Response response
  | ProxiedResponse json
  | ErrorResponse response error_message

section \<open>The session\<close>

text \<open>A call of \<open>console.log\<close>: its first argument and those of the others that are JSON values.\<close>

datatype log_entry = Log string "json option list"

text \<open>The child process: the command line it was spawned with and what was written to its standard input.\<close>

record ChildProcess =
  spawnargs :: "string list"
  stdin :: "string list"

text \<open>
  What a suspended \<open>launchRequest\<close> resumes with: its response object and its
  arguments.
\<close>

record pending_launch =
  pl_response :: response
  pl_args :: "(string \<times> json) list"

text \<open>
  \<open>Subject\<close> of await-notify. \<open>wait(timeout)\<close> adds a waiter and arms a timer of
  \<open>timeout\<close> milliseconds for it; \<open>notify()\<close> takes the last waiter, if there is one, and
  resumes it; the timer resumes the waiter when it expires first. A waiter is the time at
  which its timer expires and what it resumes. \<open>notified\<close> counts the calls of
  \<open>notify()\<close>; the library keeps no such counter, it is there to state that a call was
  made.
\<close>

record 'k Subject =
  waiters :: "(nat \<times> 'k) list"
  notified :: nat

datatype log_level = Verbose | Stop

text \<open>
  The fields of \<open>MockDebugSession\<close> that the functions below read or write, the
  store, the library's logger level and line convention, what went to the client and to
  the console, and the time in milliseconds.
\<close>

record session =
  runtime :: MockRuntime
  store :: "addr \<Rightarrow> RuntimeVariable"
  next_addr :: addr
  variableHandles :: Handles
  configurationDone :: "pending_launch Subject"
  launchDone :: "unit Subject"
  reportProgress :: bool
  progressId :: nat
  started_progress :: "string list"
  valuesInHex :: bool
  useInvalidatedEvent :: bool
  ringRdbProcess :: "ChildProcess option"
  showDebugRdbLog_flag :: bool
  clientLinesStartAt1 :: bool
  logLevel :: log_level
  client :: "client_message list"
  console :: "log_entry list"
  clock :: nat

text \<open>
  The session as its constructor and field initialisers leave it. The runtime has no
  variable and no breakpoint yet; the client's lines start at 1 unless it says otherwise.
\<close>

definition new_session :: session where
  "new_session =
     \<lparr> runtime = \<lparr> sourceFile = '''', variables = Map.empty, breakPoints = (\<lambda>_. []), breakpointId = 1 \<rparr>,
       store = (\<lambda>_. \<lparr> rv_name = '''', rv_value = VStr '''', rv_memory = None, rv_reference = None \<rparr>),
       next_addr = 0,
       variableHandles = \<lparr> nextHandle = 1000, handleMap = Map.empty \<rparr>,
       configurationDone = \<lparr> waiters = [], notified = 0 \<rparr>,
       launchDone = \<lparr> waiters = [], notified = 0 \<rparr>,
       reportProgress = False,
       progressId = 10000,
       started_progress = [],
       valuesInHex = False,
       useInvalidatedEvent = False,
       ringRdbProcess = None,
       showDebugRdbLog_flag = False,
       clientLinesStartAt1 = True,
       logLevel = Stop,
       client = [],
       console = [],
       clock = 0 \<rparr>"

text \<open>\<open>new Response(request)\<close> of the library, for a request with the given \<open>seq\<close> and command.\<close>

definition new_Response :: "int \<Rightarrow> string \<Rightarrow> response" where
  "new_Response request_seq_no cmd =
     \<lparr> request_seq = request_seq_no, command = cmd, success = True, body = None \<rparr>"

subsection \<open>Effects\<close>

definition sendEvent :: "dap_event \<Rightarrow> session \<Rightarrow> session" where
  "sendEvent e s = s\<lparr>client := client s @ [Event e]\<rparr>"

definition sendResponse :: "response \<Rightarrow> session \<Rightarrow> session" where
  "sendResponse r s = s\<lparr>client := client s @ [Response r]\<rparr>"

definition sendProxiedResponse :: "json \<Rightarrow> session \<Rightarrow> session" where
  "sendProxiedResponse r s = s\<lparr>client := client s @ [ProxiedResponse r]\<rparr>"

definition sendErrorResponse :: "response \<Rightarrow> error_message \<Rightarrow> session \<Rightarrow> session" where
  "sendErrorResponse r m s = s\<lparr>client := client s @ [ErrorResponse r m]\<rparr>"

definition console_log :: "string \<Rightarrow> json option list \<Rightarrow> session \<Rightarrow> session" where
  "console_log label args s = s\<lparr>console := console s @ [Log label args]\<rparr>"

section \<open>The backend process\<close>

text \<open>
  \<open>newRdbProcess\<close> spawns the backend and registers three callbacks: on a chunk of its
  standard error (\<open>handleRingRdbDapMessage\<close>), on a chunk of its standard output and on
  its exit. The callbacks are the functions below; the process record keeps what the
  adapter writes to it.
\<close>

definition newRdbProcess :: "session \<Rightarrow> session" where
  "newRdbProcess s =
     s\<lparr>ringRdbProcess := Some \<lparr> spawnargs = [''ring'', ''--interpreter=dap'', ''rdb''], stdin = [] \<rparr>\<rparr>"

definition ringRdbProcess_on_stdout :: "string \<Rightarrow> session \<Rightarrow> session" where
  "ringRdbProcess_on_stdout data s =
     sendEvent (OutputEvent data ''stdout'')
       (console_log ''ringRdbStdOutput data:```'' [Some (JStr data), Some (JStr ''```'')] s)"

text \<open>The exit code is \<open>null\<close> (\<^term>\<open>None\<close>) when a signal ended the process.\<close>

definition show_exit_code :: "int option \<Rightarrow> string" where
  "show_exit_code code = (case code of None \<Rightarrow> ''null'' | Some c \<Rightarrow> show_int c)"

definition ringRdbProcess_on_close :: "int option \<Rightarrow> session \<Rightarrow> session" where
  "ringRdbProcess_on_close code s =
     (let s1 = console_log ''ring-rdb process exited'' [] s;
          output = ''ring-rdb process exited with code '' @ show_exit_code code @ ''\<newline>'';
          s2 = (if code \<noteq> Some 0
                then sendEvent (OutputEvent output ''stderr'') s1
                else sendEvent (OutputEvent output ''console'') s1)
      in sendEvent TerminatedEvent s2)"

definition showDebugRdbLog :: "string \<Rightarrow> string \<Rightarrow> session \<Rightarrow> session" where
  "showDebugRdbLog receOrSend data s =
     (if \<not> showDebugRdbLog_flag s then s
      else console_log ''<<<<<<<<<<<<<< %s:\<newline>```\<newline>%s\<newline>```\<newline><<<<<<<<<<<<<<''
             [Some (JStr (receOrSend @ '' dap message'')), Some (JStr data)] s)"

subsection \<open>Messages of the backend\<close>

text \<open>\<open>data.split('\n')\<close>: the pieces between the line feeds, the empty ones too.\<close>

fun split_lf :: "string \<Rightarrow> string list" where
  "split_lf [] = [[]]"
| "split_lf (c # cs) =
     (if c = CHR 0x0A then [] # split_lf cs
      else (case split_lf cs of
              [] \<Rightarrow> [[c]]
            | l # ls \<Rightarrow> (c # l) # ls))"

text \<open>A property of a value that is known to be an object.\<close>

definition obj_prop :: "json \<Rightarrow> string \<Rightarrow> json option" where
  "obj_prop obj k = (case obj of JObj kvs \<Rightarrow> map_of kvs k | _ \<Rightarrow> None)"

text \<open>\<open>const m = JSON.parse(data); m.seq = 0;\<close> where \<open>data\<close> parses to \<open>msg\<close>.\<close>

definition with_seq_0 :: "json \<Rightarrow> json" where
  "with_seq_0 msg = set_prop msg ''seq'' (JNum (Finite 0))"

text \<open>
  The branch of \<open>handleRingRdbDapOneMessage\<close> for a message whose \<open>type\<close> is \<open>event\<close>.
  Reading \<open>event.body.exitCode\<close> throws when the exited event has no body.
\<close>

definition handle_event :: "js_env \<Rightarrow> json \<Rightarrow> session \<Rightarrow> js_error option \<times> session" where
  "handle_event env msg s =
     (let ev = obj_prop msg ''event'';
          s1 = console_log ''<<<<<< receive/proxy event `%s` to ui'' [ev] s;
          event = with_seq_0 msg
      in if ev = Some (JStr ''terminated'') then
           (None, console_log ''TerminatedEvent:'' [Some event] (sendEvent (Proxied event) s1))
         else if ev = Some (JStr ''exited'') then
           (let s2 = console_log ''ExitedEvent:'' [Some event] (sendEvent (Proxied event) s1)
            in case get_prop (obj_prop event ''body'') ''exitCode'' of
                 Inl e \<Rightarrow> (Some e, s2)
               | Inr exitCode \<Rightarrow>
                   (let output = ''ring process exited with code '' @ ToString env exitCode @ ''\<newline>'';
                        s3 = (if exitCode \<noteq> Some (JNum (Finite 0))
                              then sendEvent (OutputEvent output ''stderr'') s2
                              else sendEvent (OutputEvent output ''console'') s2)
                    in (None, sendEvent TerminatedEvent s3)))
         else if ev = Some (JStr ''stopped'') then
           (None, console_log ''StoppedEvent:'' [Some event] (sendEvent (Proxied event) s1))
         else (None, s1))"

text \<open>
  The commands whose responses are passed on, in the order of the source's chain of
  comparisons, each with the label its branch logs the response under. The ten branches
  are the same but for the label.
\<close>

definition proxied_commands :: "(string \<times> string) list" where
  "proxied_commands =
     [(''launch'', ''launchResponse:''),
      (''threads'', ''threadsResponse:''),
      (''stackTrace'', ''stackTraceResponse:''),
      (''scopes'', ''scopesResponse:''),
      (''variables'', ''variablesResponse:''),
      (''setBreakpoints'', ''setBreakpointsResponse:''),
      (''continue'', ''continueResponse:''),
      (''next'', ''nextResponse:''),
      (''stepIn'', ''stepInResponse:''),
      (''stepOut'', ''stepOutResponse:'')]"

definition handle_response :: "json \<Rightarrow> session \<Rightarrow> session" where
  "handle_response msg s =
     (let cmd = obj_prop msg ''command'';
          s1 = console_log ''<<<<<< receive/proxy response `%s` to ui'' [cmd] s;
          r = with_seq_0 msg
      in case cmd of
           Some (JStr c) \<Rightarrow>
             (case map_of proxied_commands c of
                Some label \<Rightarrow> console_log label [Some r] (sendProxiedResponse r s1)
              | None \<Rightarrow> s1)
         | _ \<Rightarrow> s1)"

text \<open>
  \<open>handleRingRdbDapOneMessage\<close>. An exception leaves the function with the session as it
  is at that point: the result is the exception, if any, and the session.
\<close>

definition handleRingRdbDapOneMessage :: "js_env \<Rightarrow> string \<Rightarrow> session \<Rightarrow> js_error option \<times> session" where
  "handleRingRdbDapOneMessage env data s =
     (case JSON_parse env data of
        None \<Rightarrow> (Some SyntaxError, s)
      | Some ringMessage \<Rightarrow>
          (case get_prop (Some ringMessage) ''type'' of
             Inl e \<Rightarrow> (Some e, s)
           | Inr ty \<Rightarrow>
               if ty = Some (JStr ''event'') then handle_event env ringMessage s
               else if ty = Some (JStr ''response'') then (None, handle_response ringMessage s)
               else (None, s)))"

text \<open>The loop of \<open>handleRingRdbDapMessage\<close> over the lines; an exception ends it.\<close>

fun handle_lines :: "js_env \<Rightarrow> string list \<Rightarrow> session \<Rightarrow> js_error option \<times> session" where
  "handle_lines env [] s = (None, s)"
| "handle_lines env (line # lines) s =
     (if length line > 0 then
        (case handleRingRdbDapOneMessage env line (showDebugRdbLog ''receive'' line s) of
           (Some e, s') \<Rightarrow> (Some e, s')
         | (None, s') \<Rightarrow> handle_lines env lines s')
      else handle_lines env lines s)"

definition handleRingRdbDapMessage :: "js_env \<Rightarrow> string \<Rightarrow> session \<Rightarrow> js_error option \<times> session" where
  "handleRingRdbDapMessage env data s = handle_lines env (split_lf data) s"

text \<open>\<open>sendRingRdbDapMessage\<close>: nothing is written when no process was spawned.\<close>

definition sendRingRdbDapMessage :: "js_env \<Rightarrow> json \<Rightarrow> session \<Rightarrow> session" where
  "sendRingRdbDapMessage env message s =
     (let data = JSON_stringify env message;
          s1 = showDebugRdbLog ''send'' data s
      in case ringRdbProcess s1 of
           None \<Rightarrow> s1
         | Some p \<Rightarrow> s1\<lparr>ringRdbProcess := Some (p\<lparr>stdin := stdin p @ [data @ ''\<newline>'']\<rparr>)\<rparr>)"

section \<open>The life cycle of the session\<close>

text \<open>
  \<open>initializeRequest\<close>. The two arguments it reads are optional booleans. The body
  lists the capabilities it sets to true, in the order of the source, and the
  completion trigger characters; the list of exception filters is empty.
\<close>

definition capabilities :: "string list" where
  "capabilities =
     [''supportsConfigurationDoneRequest'', ''supportsEvaluateForHovers'',
      ''supportsCompletionsRequest'', ''supportsCancelRequest'',
      ''supportsBreakpointLocationsRequest'', ''supportsStepInTargetsRequest'',
      ''supportsExceptionFilterOptions'', ''supportsExceptionInfoRequest'',
      ''supportsSetVariable'', ''supportsSetExpression'', ''supportsDisassembleRequest'',
      ''supportsSteppingGranularity'', ''supportsReadMemoryRequest'',
      ''supportsWriteMemoryRequest'', ''supportSuspendDebuggee'',
      ''supportTerminateDebuggee'', ''supportsDelayedStackTraceLoading'']"

definition initializeRequest :: "response \<Rightarrow> bool option \<Rightarrow> bool option \<Rightarrow> session \<Rightarrow> session" where
  "initializeRequest response supportsProgressReporting supportsInvalidatedEvent s =
     (let s1 = (if supportsProgressReporting = Some True then s\<lparr>reportProgress := True\<rparr> else s);
          s2 = (if supportsInvalidatedEvent = Some True then s1\<lparr>useInvalidatedEvent := True\<rparr> else s1);
          s3 = sendResponse (response\<lparr>body := Some (InitializeBody capabilities [''.'', ''['']) \<rparr>) s2;
          s4 = console_log ''initializeResponse:'' [] (console_log ''initializeRequest:'' [] s3);
          s5 = newRdbProcess s4
      in sendEvent InitializedEvent s5)"

text \<open>
  \<open>launchRequest\<close> up to its \<open>await this._configurationDone.wait(10000)\<close>: it logs, sets
  the logger up and suspends as a waiter of the configuration-done subject whose timer
  expires 10000 milliseconds from now.
\<close>

definition launchRequest :: "response \<Rightarrow> (string \<times> json) list \<Rightarrow> session \<Rightarrow> session" where
  "launchRequest response args s =
     (let s1 = console_log ''launchRequest args:'' [Some (JObj args)] s;
          s2 = s1\<lparr>logLevel := (if truthy (map_of args ''trace'') then Verbose else Stop)\<rparr>;
          waiter = (clock s2 + 10000, \<lparr> pl_response = response, pl_args = args \<rparr>)
      in s2\<lparr>configurationDone :=
              (configurationDone s2)\<lparr>waiters := waiters (configurationDone s2) @ [waiter]\<rparr>\<rparr>)"

text \<open>The request \<open>launchRequest\<close> sends to the backend.\<close>

definition launch_message :: "pending_launch \<Rightarrow> json" where
  "launch_message pl =
     JObj [(''type'', JStr ''request''),
           (''seq'', JNum (num_of_int (request_seq (pl_response pl)))),
           (''command'', JStr ''launch''),
           (''arguments'', JObj (pl_args pl))]"

text \<open>
  \<open>launchRequest\<close> from the point where the wait is over, by a notification or by the
  timer: nothing in it depends on which of the two it was.
\<close>

definition launchRequest_resume :: "js_env \<Rightarrow> pending_launch \<Rightarrow> session \<Rightarrow> session" where
  "launchRequest_resume env pl s =
     (let s1 = console_log ''launchRequest start ring process....'' [] s;
          s2 = sendRingRdbDapMessage env (launch_message pl) s1;
          s3 = s2\<lparr>launchDone := (launchDone s2)\<lparr>notified := notified (launchDone s2) + 1\<rparr>\<rparr>
      in sendEvent (OutputEvent ''start ring-rdb process success\<newline>'' ''console'') s3)"

definition attachRequest :: "response \<Rightarrow> (string \<times> json) list \<Rightarrow> session \<Rightarrow> session" where
  "attachRequest response args s =
     launchRequest response args (console_log ''attachRequest args:'' [Some (JObj args)] s)"

text \<open>
  \<open>configurationDoneRequest\<close>: the handler of the library sends the response, then the
  subject is notified. \<open>notify()\<close> takes the last waiter and stops its timer; the waiter
  resumes as soon as the handler has returned.
\<close>

definition configurationDoneRequest :: "js_env \<Rightarrow> response \<Rightarrow> session \<Rightarrow> session" where
  "configurationDoneRequest env response s =
     (let s1 = console_log ''configurationDoneRequest args:'' [] s;
          s2 = sendResponse response s1;
          subject = configurationDone s2;
          s3 = s2\<lparr>configurationDone := subject\<lparr>waiters := butlast (waiters subject),
                                                  notified := notified subject + 1\<rparr>\<rparr>
      in case waiters subject of
           [] \<Rightarrow> s3
         | _ # _ \<Rightarrow> launchRequest_resume env (snd (last (waiters subject))) s3)"

text \<open>\<open>disconnectRequest\<close> logs its arguments.\<close>

definition disconnectRequest :: "js_env \<Rightarrow> response \<Rightarrow> (string \<times> json) list \<Rightarrow> session \<Rightarrow> session" where
  "disconnectRequest env response args s =
     console_log (''disconnectRequest suspend: '' @ ToString env (map_of args ''suspendDebuggee'')
                    @ '', terminate: '' @ ToString env (map_of args ''terminateDebuggee'')) []
       (console_log ''disconnectRequest args:'' [Some (JObj args)] s)"

text \<open>
  Time passes: the clock advances by \<open>d\<close> milliseconds and the timers that have expired
  by then fire, in the order in which they were armed. Each takes its waiter off the
  subject and resumes it.
\<close>

definition elapse :: "js_env \<Rightarrow> nat \<Rightarrow> session \<Rightarrow> session" where
  "elapse env d s =
     (let now = clock s + d;
          subject = configurationDone s;
          due = filter (\<lambda>w. fst w \<le> now) (waiters subject);
          s1 = s\<lparr>clock := now,
                 configurationDone := subject\<lparr>waiters := filter (\<lambda>w. \<not> fst w \<le> now) (waiters subject)\<rparr>\<rparr>
      in fold (\<lambda>w. launchRequest_resume env (snd w)) due s1)"

text \<open>
  What can happen to a session between a launch request and the launch: requests of
  the client, chunks on the standard error and the standard output of the backend, its
  exit, and the passing of time. An exception ends the handler of the chunk it arose in;
  the session goes on from where the handler left it.
\<close>

datatype stimulus =
    LaunchRequest response "(string \<times> json) list"
  | AttachRequest response "(string \<times> json) list"
  | ConfigurationDoneRequest response
  | DisconnectRequest response "(string \<times> json) list"
  | BackendData string
  | BackendOutput string
  | ProcessClosed "int option"
  | Elapse nat

fun step :: "js_env \<Rightarrow> session \<Rightarrow> stimulus \<Rightarrow> session" where
  "step env s (LaunchRequest r args) = launchRequest r args s"
| "step env s (AttachRequest r args) = attachRequest r args s"
| "step env s (ConfigurationDoneRequest r) = configurationDoneRequest env r s"
| "step env s (DisconnectRequest r args) = disconnectRequest env r args s"
| "step env s (BackendData data) = snd (handleRingRdbDapMessage env data s)"
| "step env s (BackendOutput data) = ringRdbProcess_on_stdout data s"
| "step env s (ProcessClosed code) = ringRdbProcess_on_close code s"
| "step env s (Elapse d) = elapse env d s"

definition run :: "js_env \<Rightarrow> session \<Rightarrow> stimulus list \<Rightarrow> session" where
  "run env s evs = foldl (step env) s evs"

section \<open>Variables, breakpoints and memory\<close>

subsection \<open>Handles and the runtime\<close>

definition Handles_create :: "handle_value \<Rightarrow> session \<Rightarrow> nat \<times> session" where
  "Handles_create v s =
     (let h = nextHandle (variableHandles s)
      in (h, s\<lparr>variableHandles :=
                  \<lparr> nextHandle = h + 1, handleMap = (handleMap (variableHandles s))(h \<mapsto> v) \<rparr>\<rparr>))"

text \<open>\<open>get(x)\<close> for a number \<open>x\<close>, which may be NaN: only a number that is a key is found.\<close>

definition Handles_get :: "Handles \<Rightarrow> number option \<Rightarrow> handle_value option" where
  "Handles_get h x =
     (case x of
        Some (Finite r) \<Rightarrow> (if 0 \<le> r \<and> of_int \<lfloor>r\<rfloor> = r then handleMap h (nat \<lfloor>r\<rfloor>) else None)
      | _ \<Rightarrow> None)"

text \<open>
  Modelled from the spec: \<open>getLocalVariable\<close>, \<open>setBreakPoint\<close> and \<open>clearBreakPoint\<close> of
  \<open>MockRuntime\<close> (\<open>mockRuntime.ts\<close>, not among the sources). A variable is looked up by
  its name and is absent when no variable has the name. A new breakpoint record takes
  the next id and the given line and is not verified yet. Clearing removes the record at
  the line, if there is one, and returns it.
\<close>

definition getLocalVariable :: "MockRuntime \<Rightarrow> string \<Rightarrow> addr option" where
  "getLocalVariable rt n = variables rt n"

definition setBreakPoint :: "string \<Rightarrow> int \<Rightarrow> MockRuntime \<Rightarrow> IRuntimeBreakpoint \<times> MockRuntime" where
  "setBreakPoint path lineno rt =
     (let bp = \<lparr> rbp_id = breakpointId rt, rbp_line = lineno, rbp_verified = False \<rparr>
      in (bp, rt\<lparr>breakpointId := breakpointId rt + 1,
                 breakPoints := (breakPoints rt)(path := breakPoints rt path @ [bp])\<rparr>))"

definition clearBreakPoint :: "string \<Rightarrow> int \<Rightarrow> MockRuntime \<Rightarrow> IRuntimeBreakpoint option \<times> MockRuntime" where
  "clearBreakPoint path lineno rt =
     (case find (\<lambda>bp. rbp_line bp = lineno) (breakPoints rt path) of
        None \<Rightarrow> (None, rt)
      | Some bp \<Rightarrow>
          (Some bp, rt\<lparr>breakPoints := (breakPoints rt)(path := remove1 bp (breakPoints rt path))\<rparr>))"

text \<open>\<open>new RuntimeVariable(name, value)\<close>: a fresh object in the store.\<close>

definition new_RuntimeVariable :: "string \<Rightarrow> rt_value \<Rightarrow> session \<Rightarrow> addr \<times> session" where
  "new_RuntimeVariable n v s =
     (next_addr s,
      s\<lparr>store := (store s)(next_addr s :=
                     \<lparr> rv_name = n, rv_value = v, rv_memory = None, rv_reference = None \<rparr>),
        next_addr := next_addr s + 1\<rparr>)"

text \<open>
  The line conventions of the library: the constructor sets the debugger's lines to
  start at 0.
\<close>

definition convertClientLineToDebugger :: "session \<Rightarrow> int \<Rightarrow> int" where
  "convertClientLineToDebugger s lineno = (if clientLinesStartAt1 s then lineno - 1 else lineno)"

definition convertDebuggerLineToClient :: "session \<Rightarrow> int \<Rightarrow> int" where
  "convertDebuggerLineToClient s lineno = (if clientLinesStartAt1 s then lineno + 1 else lineno)"

subsection \<open>From runtime values to the protocol\<close>

definition starts_with :: "string \<Rightarrow> string \<Rightarrow> bool" where
  "starts_with s p = (take (length p) s = p)"

text \<open>\<open>s.indexOf(sub) >= 0\<close>.\<close>

fun contains_substring :: "string \<Rightarrow> string \<Rightarrow> bool" where
  "contains_substring [] sub = (sub = [])"
| "contains_substring (c # cs) sub = (starts_with (c # cs) sub \<or> contains_substring cs sub)"

definition typeof :: "rt_value \<Rightarrow> string" where
  "typeof v =
     (case v of
        VBool _ \<Rightarrow> ''boolean''
      | VNum _ \<Rightarrow> ''number''
      | VStr _ \<Rightarrow> ''string''
      | VArr _ \<Rightarrow> ''object'')"

text \<open>\<open>Math.round(x) === x\<close>.\<close>

definition is_integral :: "number \<Rightarrow> bool" where
  "is_integral x = (case x of Finite r \<Rightarrow> of_int \<lfloor>r\<rfloor> = r | _ \<Rightarrow> True)"

definition formatNumber :: "js_env \<Rightarrow> session \<Rightarrow> number \<Rightarrow> string" where
  "formatNumber env s x =
     (if valuesInHex s then ''0x'' @ Number_toString env x 16 else Number_toString env x 10)"

text \<open>
  \<open>v.reference ??= this._variableHandles.create(x)\<close> for the variable at \<open>a\<close>, where
  \<open>rhs\<close> evaluates \<open>x\<close>: nothing is evaluated when the variable has a reference.
\<close>

definition ensure_reference :: "addr \<Rightarrow> (session \<Rightarrow> handle_value \<times> session) \<Rightarrow> session \<Rightarrow> nat \<times> session" where
  "ensure_reference a rhs s =
     (case rv_reference (store s a) of
        Some r \<Rightarrow> (r, s)
      | None \<Rightarrow>
          (let (hv, s1) = rhs s;
               (h, s2) = Handles_create hv s1
           in (h, s2\<lparr>store := (store s2)(a := (store s2 a)\<lparr>rv_reference := Some h\<rparr>)\<rparr>)))"

text \<open>\<open>new RuntimeVariable('', [new RuntimeVariable('', v.value)])\<close> for the variable at \<open>a\<close>.\<close>

definition lazy_wrapper :: "addr \<Rightarrow> session \<Rightarrow> handle_value \<times> session" where
  "lazy_wrapper a s =
     (let (inner, s1) = new_RuntimeVariable '''' (rv_value (store s a)) s;
          (outer, s2) = new_RuntimeVariable '''' (VArr [inner]) s1
      in (Variable outer, s2))"

definition convertFromRuntime :: "js_env \<Rightarrow> addr \<Rightarrow> session \<Rightarrow> dap_variable \<times> session" where
  "convertFromRuntime env a s =
     (let v = store s a;
          dapVariable =
            \<lparr> dv_name = rv_name v, dv_value = ''???'', dv_type = typeof (rv_value v),
              dv_variablesReference = 0, dv_evaluateName = ''$'' @ rv_name v,
              dv_presentationHint_lazy = False, dv_menuContext = None,
              dv_memoryReference = None \<rparr>;
          (dv1, s1) =
            (if contains_substring (rv_name v) ''lazy'' then
               (let (r, s') = ensure_reference a (lazy_wrapper a) s
                in (dapVariable\<lparr>dv_value := ''lazy var'', dv_variablesReference := r,
                                 dv_presentationHint_lazy := True\<rparr>, s'))
             else
               (case rv_value v of
                  VArr _ \<Rightarrow>
                    (let (r, s') = ensure_reference a (\<lambda>t. (Variable a, t)) s
                     in (dapVariable\<lparr>dv_value := ''Object'', dv_variablesReference := r\<rparr>, s'))
                | VNum n \<Rightarrow>
                    (if is_integral n
                     then (dapVariable\<lparr>dv_value := formatNumber env s n, dv_type := ''integer'',
                                         dv_menuContext := Some ''simple''\<rparr>, s)
                     else (dapVariable\<lparr>dv_value := Number_toString env n 10, dv_type := ''float''\<rparr>, s))
                | VStr str \<Rightarrow> (dapVariable\<lparr>dv_value := CHR 0x22 # str @ [CHR 0x22]\<rparr>, s)
                | VBool b \<Rightarrow> (dapVariable\<lparr>dv_value := (if b then ''true'' else ''false'')\<rparr>, s)))
      in case rv_memory (store s1 a) of
           None \<Rightarrow> (dv1, s1)
         | Some _ \<Rightarrow>
             (let (r, s2) = ensure_reference a (\<lambda>t. (Variable a, t)) s1
              in (dv1\<lparr>dv_memoryReference := Some (show_nat r)\<rparr>, s2)))"

subsection \<open>Requests about variables\<close>

text \<open>\<open>rv.value = this.convertToRuntime(value)\<close> for the variable at \<open>a\<close>.\<close>

definition assign_value :: "js_env \<Rightarrow> addr \<Rightarrow> string \<Rightarrow> session \<Rightarrow> session" where
  "assign_value env a new_value s =
     s\<lparr>store := (store s)(a := (store s a)\<lparr>rv_value := convertToRuntime env new_value\<rparr>)\<rparr>"

text \<open>
  The variable \<open>setVariableRequest\<close> is to change: a local of the runtime when the
  reference stands for the locals, the first child of the name when it stands for a
  variable with an array value, and none otherwise.
\<close>

definition setVariable_target :: "session \<Rightarrow> int \<Rightarrow> string \<Rightarrow> addr option" where
  "setVariable_target s variablesReference n =
     (case Handles_get (variableHandles s) (Some (num_of_int variablesReference)) of
        Some Locals \<Rightarrow> getLocalVariable (runtime s) n
      | Some (Variable c) \<Rightarrow>
          (case rv_value (store s c) of
             VArr children \<Rightarrow> find (\<lambda>a. rv_name (store s a) = n) children
           | _ \<Rightarrow> None)
      | _ \<Rightarrow> None)"

definition setVariableRequest :: "js_env \<Rightarrow> response \<Rightarrow> int \<Rightarrow> string \<Rightarrow> string \<Rightarrow> session \<Rightarrow> session" where
  "setVariableRequest env response variablesReference n new_value s =
     (let s0 = console_log ''setVariableRequest args:'' [] s
      in case setVariable_target s0 variablesReference n of
           None \<Rightarrow> sendResponse response s0
         | Some a \<Rightarrow>
             (let s1 = assign_value env a new_value s0;
                  (dv, s2) = convertFromRuntime env a s1;
                  rv = store s2 a;
                  s3 = (case (rv_memory rv, rv_reference rv) of
                          (Some mem, Some r) \<Rightarrow>
                            (if r \<noteq> 0 then sendEvent (MemoryEvent (show_nat r) 0 (int (length mem))) s2
                             else s2)
                        | _ \<Rightarrow> s2)
              in sendResponse (response\<lparr>body := Some (VariableBody dv)\<rparr>) s3))"

definition setExpressionRequest :: "js_env \<Rightarrow> response \<Rightarrow> string \<Rightarrow> string \<Rightarrow> session \<Rightarrow> session" where
  "setExpressionRequest env response expression new_value s =
     (let s0 = console_log ''setExpressionRequest'' [] s
      in if starts_with expression ''$'' then
           (case getLocalVariable (runtime s0) (drop 1 expression) of
              Some a \<Rightarrow>
                (let s1 = assign_value env a new_value s0;
                     (dv, s2) = convertFromRuntime env a s1
                 in sendResponse (response\<lparr>body := Some (VariableBody dv)\<rparr>) s2)
            | None \<Rightarrow>
                sendErrorResponse response
                  \<lparr> err_id = 1002, err_format = ''variable '{lexpr}' not found'',
                    err_variables = [(''lexpr'', expression)], err_showUser = True \<rparr> s0)
         else
           sendErrorResponse response
             \<lparr> err_id = 1003, err_format = CHR 0x27 # ''{lexpr}' not an assignable expression'',
               err_variables = [(''lexpr'', expression)], err_showUser = True \<rparr> s0)"

subsection \<open>Memory\<close>

text \<open>
  \<open>TypedArray.prototype.subarray(begin, end)\<close>: a negative index counts from the end,
  and both are clamped to the array.
\<close>

definition relative_index :: "int \<Rightarrow> nat \<Rightarrow> nat" where
  "relative_index i len = (if i < 0 then nat (max (int len + i) 0) else min (nat i) len)"

definition subarray :: "byte list \<Rightarrow> int \<Rightarrow> int \<Rightarrow> byte list" where
  "subarray xs b e =
     (let bi = relative_index b (length xs);
          ei = relative_index e (length xs)
      in take (ei - bi) (drop bi xs))"

text \<open>\<open>readMemoryRequest\<close>; \<open>offset\<close> is 0 when the request has none.\<close>

definition readMemoryRequest :: "js_env \<Rightarrow> response \<Rightarrow> int option \<Rightarrow> int \<Rightarrow> string \<Rightarrow> session \<Rightarrow> session" where
  "readMemoryRequest env response offset_arg count memoryReference s =
     (let offset = (case offset_arg of None \<Rightarrow> 0 | Some x \<Rightarrow> x);
          s0 = console_log ''readMemoryRequest'' [] s;
          variable = Handles_get (variableHandles s0) (ToNumber env memoryReference);
          placeholder = ReadMemoryBody (show_int offset) '''' count;
          b = (case variable of
                 Some (Variable a) \<Rightarrow>
                   (case rv_memory (store s0 a) of
                      Some mem \<Rightarrow>
                        (let memory = subarray mem (min offset (int (length mem)))
                                               (min (offset + count) (int (length mem)))
                         in ReadMemoryBody (show_int offset) (fromByteArray env memory)
                              (count - int (length memory)))
                    | None \<Rightarrow> placeholder)
               | _ \<Rightarrow> placeholder)
      in sendResponse (response\<lparr>body := Some b\<rparr>) s0)"

subsection \<open>The custom request\<close>

text \<open>
  \<open>customRequest\<close>. For any other command the handler of the library answers with its
  error 1014, \<open>unrecognized request\<close>, which is not shown to the user.
\<close>

definition customRequest :: "string \<Rightarrow> response \<Rightarrow> session \<Rightarrow> session" where
  "customRequest cmd response s =
     (let s0 = console_log ''customRequest command:'' [Some (JStr cmd), Some (JStr ''args:'')] s
      in if cmd = ''toggleFormatting'' then
           (let s1 = s0\<lparr>valuesInHex := \<not> valuesInHex s0\<rparr>;
                s2 = (if useInvalidatedEvent s1 then sendEvent (InvalidatedEvent [''variables'']) s1 else s1)
            in sendResponse response s2)
         else
           sendErrorResponse response
             \<lparr> err_id = 1014, err_format = ''unrecognized request'', err_variables = [],
               err_showUser = False \<rparr> s0)"

subsection \<open>Evaluate\<close>

definition is_digit :: "char \<Rightarrow> bool" where
  "is_digit c = (48 \<le> (of_char c :: nat) \<and> (of_char c :: nat) \<le> 57)"

text \<open>
  The regular expressions \<open>/new +([0-9]+)/\<close> and \<open>/del +([0-9]+)/\<close>: the keyword, one or
  more spaces, one or more digits. \<open>exec\<close> finds the leftmost match in the string and
  the result holds the digits. Both repetitions are greedy, and taking fewer spaces or
  digits never turns a failure into a match.
\<close>

definition match_keyword_number_at :: "string \<Rightarrow> string \<Rightarrow> string option" where
  "match_keyword_number_at kw s =
     (if starts_with s kw then
        (let r = drop (length kw) s;
             r' = dropWhile (\<lambda>c. c = CHR '' '') r;
             ds = takeWhile is_digit r'
         in if length r' < length r \<and> ds \<noteq> [] then Some ds else None)
      else None)"

fun exec_keyword_number :: "string \<Rightarrow> string \<Rightarrow> string option" where
  "exec_keyword_number kw [] = match_keyword_number_at kw []"
| "exec_keyword_number kw (c # cs) =
     (case match_keyword_number_at kw (c # cs) of
        Some ds \<Rightarrow> Some ds
      | None \<Rightarrow> exec_keyword_number kw cs)"

text \<open>\<open>parseInt\<close> on a string of digits (exact below \<open>2\<^sup>5\<^sup>3\<close>).\<close>

definition parseInt_digits :: "string \<Rightarrow> int" where
  "parseInt_digits ds = foldl (\<lambda>n c. 10 * n + (int (of_char c) - 48)) 0 ds"

definition createSource :: "string \<Rightarrow> source" where
  "createSource filePath = Source filePath"

text \<open>
  \<open>progressSequence\<close> up to its first \<open>await\<close>: it takes the next progress id. Its events
  follow later, on timers, and are not part of this model; \<open>started_progress\<close> keeps the
  ids of the sequences that were started.
\<close>

definition progressSequence :: "session \<Rightarrow> session" where
  "progressSequence s =
     s\<lparr>progressId := progressId s + 1,
       started_progress := started_progress s @ [show_nat (progressId s)]\<rparr>"

text \<open>
  The commands of the REPL, \<open>case 'repl'\<close> of \<open>evaluateRequest\<close>: the reply, if one was
  set, and the session.
\<close>

definition repl_commands :: "string \<Rightarrow> session \<Rightarrow> string option \<times> session" where
  "repl_commands expression s =
     (case exec_keyword_number ''new'' expression of
        Some m \<Rightarrow>
          (let (mbp, rt) = setBreakPoint (sourceFile (runtime s))
                             (convertClientLineToDebugger s (parseInt_digits m)) (runtime s);
               s1 = s\<lparr>runtime := rt\<rparr>;
               bp = \<lparr> bp_verified = rbp_verified mbp,
                      bp_line = Some (convertDebuggerLineToClient s1 (rbp_line mbp)),
                      bp_source = Some (createSource (sourceFile (runtime s1))),
                      bp_id = Some (rbp_id mbp) \<rparr>
           in (Some ''breakpoint created'', sendEvent (BreakpointEvent ''new'' bp) s1))
      | None \<Rightarrow>
          (case exec_keyword_number ''del'' expression of
             Some m \<Rightarrow>
               (let (mbp, rt) = clearBreakPoint (sourceFile (runtime s))
                                  (convertClientLineToDebugger s (parseInt_digits m)) (runtime s);
                    s1 = s\<lparr>runtime := rt\<rparr>
                in case mbp of
                     Some b \<Rightarrow>
                       (Some ''breakpoint deleted'',
                        sendEvent (BreakpointEvent ''removed''
                          \<lparr> bp_verified = False, bp_line = None, bp_source = None,
                            bp_id = Some (rbp_id b) \<rparr>) s1)
                   | None \<Rightarrow> (None, s1))
           | None \<Rightarrow>
               (if contains_substring expression ''progress'' then
                  (if reportProgress s then (Some ''progress started'', progressSequence s)
                   else (Some ''frontend doesn't support progress (capability 'supportsProgressReporting' not set)'', s))
                else (None, s))))"

text \<open>The result of an evaluation that found no variable: the reply if there is one.\<close>

definition evaluate_result :: "string option \<Rightarrow> string option \<Rightarrow> string \<Rightarrow> string" where
  "evaluate_result reply ctx expression =
     (case reply of
        Some r \<Rightarrow> r
      | None \<Rightarrow>
          ''evaluate(context: '' @ [CHR 0x27] @ (case ctx of None \<Rightarrow> ''undefined'' | Some c \<Rightarrow> c)
            @ [CHR 0x27] @ '', '' @ [CHR 0x27] @ expression @ [CHR 0x27] @ '')'')"

text \<open>
  \<open>evaluateRequest\<close>. The \<open>case 'repl'\<close> of its switch falls through to the default
  case, which finds or makes the variable to show.
\<close>

definition evaluateRequest :: "js_env \<Rightarrow> response \<Rightarrow> string option \<Rightarrow> string \<Rightarrow> session \<Rightarrow> session" where
  "evaluateRequest env response ctx expression s =
     (let s0 = console_log ''evaluateRequest args:'' [] s;
          (reply, s1) = (if ctx = Some ''repl'' then repl_commands expression s0 else (None, s0));
          (rv, s2) =
            (if starts_with expression ''$''
             then (getLocalVariable (runtime s1) (drop 1 expression), s1)
             else (let (a, s') = new_RuntimeVariable ''eval'' (convertToRuntime env expression) s1
                   in (Some a, s')))
      in case rv of
           Some a \<Rightarrow>
             (let (v, s3) = convertFromRuntime env a s2
              in sendResponse
                   (response\<lparr>body := Some (EvaluateBody (dv_value v) (Some (dv_type v))
                                             (dv_variablesReference v) (dv_presentationHint_lazy v))\<rparr>) s3)
         | None \<Rightarrow>
             sendResponse
               (response\<lparr>body := Some (EvaluateBody (evaluate_result reply ctx expression) None 0 False)\<rparr>) s2)"

section \<open>Vocabulary of the properties\<close>

text \<open>
  The messages the relay recognises, in the words of the specification: an event
  \<open>terminated\<close>, \<open>exited\<close> or \<open>stopped\<close>, or a response to one of the ten proxied
  commands.
\<close>

definition recognised :: "json \<Rightarrow> bool" where
  "recognised msg =
     (obj_prop msg ''type'' = Some (JStr ''event'')
        \<and> obj_prop msg ''event'' \<in> set (map (\<lambda>e. Some (JStr e)) [''terminated'', ''exited'', ''stopped''])
      \<or> obj_prop msg ''type'' = Some (JStr ''response'')
        \<and> obj_prop msg ''command'' \<in> set (map (\<lambda>c. Some (JStr c))
              [''launch'', ''threads'', ''stackTrace'', ''scopes'', ''variables'',
               ''setBreakpoints'', ''continue'', ''next'', ''stepIn'', ''stepOut'']))"

text \<open>The object of the backend inside a message to the client, if it is one.\<close>

fun proxied_json :: "client_message \<Rightarrow> json option" where
  "proxied_json (Event (Proxied j)) = Some j"
| "proxied_json (ProxiedResponse j) = Some j"
| "proxied_json _ = None"

text \<open>A message to the client carries no sequence number of the backend.\<close>

definition seq_normalised :: "client_message \<Rightarrow> bool" where
  "seq_normalised m =
     (case proxied_json m of
        None \<Rightarrow> True
      | Some j \<Rightarrow> obj_prop j ''seq'' = Some (JNum (Finite 0)))"

text \<open>How a recognised message reaches the client: as an event or as a response.\<close>

definition forwarded :: "json \<Rightarrow> client_message" where
  "forwarded msg =
     (if obj_prop msg ''type'' = Some (JStr ''event'')
      then Event (Proxied (with_seq_0 msg))
      else ProxiedResponse (with_seq_0 msg))"

text \<open>
  A terminate signal to the client: a terminated event, made by the adapter or passed
  on from the backend.
\<close>

fun is_terminate_signal :: "client_message \<Rightarrow> bool" where
  "is_terminate_signal (Event TerminatedEvent) = True"
| "is_terminate_signal (Event (Proxied j)) = (obj_prop j ''event'' = Some (JStr ''terminated''))"
| "is_terminate_signal _ = False"

text \<open>The number of terminate signals among messages to the client.\<close>

definition terminate_signals :: "client_message list \<Rightarrow> nat" where
  "terminate_signals ms = length (filter is_terminate_signal ms)"

text \<open>
  The number of terminate signals that the handling of a chunk of the backend's
  standard error delivers. It is counted on a fresh session; what a chunk delivers does
  not depend on the session.
\<close>

definition chunk_terminates :: "js_env \<Rightarrow> string \<Rightarrow> nat" where
  "chunk_terminates env data =
     terminate_signals (client (snd (handleRingRdbDapMessage env data new_session)))"

text \<open>
  The number of terminate signals a stimulus is to add: one for the exit of the backend,
  those of the chunk for a chunk of its standard error, none for anything else.
\<close>

fun terminates_of :: "js_env \<Rightarrow> stimulus \<Rightarrow> nat" where
  "terminates_of env (ProcessClosed code) = 1"
| "terminates_of env (BackendData data) = chunk_terminates env data"
| "terminates_of env _ = 0"

fun is_error_response :: "client_message \<Rightarrow> bool" where
  "is_error_response (ErrorResponse _ _) = True"
| "is_error_response _ = False"

text \<open>
  The memory buffer a handle resolves to: that of the variable it stands for, when it
  stands for a variable that has one.
\<close>

definition memory_of :: "session \<Rightarrow> handle_value option \<Rightarrow> byte list option" where
  "memory_of s v = (case v of Some (Variable a) \<Rightarrow> rv_memory (store s a) | _ \<Rightarrow> None)"

text \<open>What a launch depends on: the backend process, the two subjects and the clock.\<close>

definition launch_state :: "session \<Rightarrow> ChildProcess option \<times> unit Subject \<times> pending_launch Subject \<times> nat" where
  "launch_state s = (ringRdbProcess s, launchDone s, configurationDone s, clock s)"

text \<open>What has been written to the standard input of the backend, in order.\<close>

definition written :: "session \<Rightarrow> string list" where
  "written s = (case ringRdbProcess s of None \<Rightarrow> [] | Some p \<Rightarrow> stdin p)"

text \<open>The line that carries the launch request of a launch.\<close>

definition launch_line :: "js_env \<Rightarrow> pending_launch \<Rightarrow> string" where
  "launch_line env pl = JSON_stringify env (launch_message pl) @ ''\<newline>''"

text \<open>
  A launch is under way: the backend runs, and either the launch request has been
  written and launch-done notified since the count \<open>n0\<close>, or the launch still waits on
  the configuration-done subject with a timer that expires at \<open>d\<close>, which is yet to
  come.
\<close>

definition launch_under_way :: "js_env \<Rightarrow> pending_launch \<Rightarrow> nat \<Rightarrow> nat \<Rightarrow> session \<Rightarrow> bool" where
  "launch_under_way env pl d n0 s =
     (ringRdbProcess s \<noteq> None
      \<and> n0 \<le> notified (launchDone s)
      \<and> (launch_line env pl \<in> set (written s) \<and> n0 < notified (launchDone s)
         \<or> (d, pl) \<in> set (waiters (configurationDone s)) \<and> clock s < d))"

section \<open>An environment for examples\<close>

text \<open>
  A small instance of the platform functions, to run the definitions on concrete
  inputs: it parses and converts the handful of strings the examples use.
\<close>

definition threads_line :: string where
  \<open>threads_line = ''{"type":"response","seq":7,"command":"threads","body":{"threads":[]}}''\<close>

definition exited_line :: string where
  \<open>exited_line = ''{"type":"event","event":"exited","seq":9,"body":{"exitCode":3}}''\<close>

definition untyped_line :: string where
  \<open>untyped_line = ''{"seq":1}''\<close>

definition example_parse :: "string \<Rightarrow> json option" where
  "example_parse s =
     (if s = threads_line
        then Some (JObj [(''type'', JStr ''response''), (''seq'', JNum (Finite 7)),
                         (''command'', JStr ''threads''),
                         (''body'', JObj [(''threads'', JArr [])])])
      else if s = exited_line
        then Some (JObj [(''type'', JStr ''event''), (''event'', JStr ''exited''),
                         (''seq'', JNum (Finite 9)),
                         (''body'', JObj [(''exitCode'', JNum (Finite 3))])])
      else if s = untyped_line then Some (JObj [(''seq'', JNum (Finite 1))])
      else if s = ''null'' then Some JNull
      else None)"

definition example_stringify :: "json \<Rightarrow> string" where
  "example_stringify j =
     (case obj_prop j ''seq'' of
        Some (JNum (Finite r)) \<Rightarrow> ''launch '' @ show_int \<lfloor>r\<rfloor>
      | _ \<Rightarrow> ''{}'')"

definition example_env :: js_env where
  "example_env =
     \<lparr> JSON_parse = example_parse,
       JSON_stringify = example_stringify,
       ToString = (\<lambda>v. case v of Some (JNum (Finite r)) \<Rightarrow> show_int \<lfloor>r\<rfloor> | _ \<Rightarrow> ''undefined''),
       parseFloat = (\<lambda>s. if s = ''42'' then Some (Finite 42) else None),
       ToNumber = (\<lambda>s. if s = ''1000'' then Some (Finite 1000) else None),
       Number_toString = (\<lambda>x radix. case x of
                            Finite r \<Rightarrow> (if radix = 16 \<and> r = 255 then ''ff'' else show_int \<lfloor>r\<rfloor>)
                          | _ \<Rightarrow> ''Infinity''),
       fromByteArray = (\<lambda>bs. map (\<lambda>b. char_of (unat b)) bs) \<rparr>"

text \<open>
  A session in which handle 1000 stands for a string variable with four bytes of
  memory.
\<close>

definition memory_session :: session where
  "memory_session =
     new_session\<lparr>
       store := (store new_session)(0 :=
         \<lparr> rv_name = ''text'', rv_value = VStr ''abcd'',
           rv_memory = Some [0x61, 0x62, 0x63, 0x64], rv_reference = Some 1000 \<rparr>),
       next_addr := 1,
       variableHandles := \<lparr> nextHandle = 1001, handleMap = [1000 \<mapsto> Variable 0] \<rparr>\<rparr>"

section \<open>Properties\<close>

subsection \<open>What reaches the client\<close>

lemma new_session_client: "client new_session = []"
  by (simp add: new_session_def)

lemma client_console_log [simp]: "client (console_log l a s) = client s"
  by (simp add: console_log_def)

lemma client_sendEvent [simp]: "client (sendEvent e s) = client s @ [Event e]"
  by (simp add: sendEvent_def)

lemma client_sendResponse [simp]: "client (sendResponse r s) = client s @ [Response r]"
  by (simp add: sendResponse_def)

lemma client_sendProxiedResponse [simp]: "client (sendProxiedResponse r s) = client s @ [ProxiedResponse r]"
  by (simp add: sendProxiedResponse_def)

lemma client_sendErrorResponse [simp]: "client (sendErrorResponse r m s) = client s @ [ErrorResponse r m]"
  by (simp add: sendErrorResponse_def)

lemma client_showDebugRdbLog [simp]: "client (showDebugRdbLog d l s) = client s"
  by (simp add: showDebugRdbLog_def)

lemma show_nat_digit: "n < 10 \<Longrightarrow> show_nat n = [digit_char n]"
  by (simp add: show_nat.simps)

subsection \<open>Trimming\<close>

lemma trim_idem: "trim (trim s) = trim s"
proof -
  let ?t = "dropWhile is_white_space (rev (dropWhile is_white_space s))"
  show ?thesis
  proof (cases ?t)
    case Nil
    then have "trim s = []" by (simp add: trim_def)
    moreover have "trim [] = []" by (simp add: trim_def)
    ultimately show ?thesis by simp
  next
    case (Cons c cs)
    then have c: "\<not> is_white_space c"
      by (metis dropWhile_eq_Cons_conv)
    have "rev ?t \<noteq> []" using Cons by simp
    obtain d ds where dds: "dropWhile is_white_space s = d # ds"
      using Cons by (cases "dropWhile is_white_space s") auto
    then have d: "\<not> is_white_space d"
      by (metis dropWhile_eq_Cons_conv)
    have "set ?t \<subseteq> set (rev (d # ds))"
      using set_dropWhileD dds by (metis subsetI)
    have hd_rev: "hd (rev ?t) = d"
    proof -
      have "\<exists>ys. rev (d # ds) = ys @ ?t"
        using dds by (metis takeWhile_dropWhile_id)
      then obtain ys where "rev (d # ds) = ys @ ?t" by blast
      then have "d # ds = rev ?t @ rev ys" by (metis rev_append rev_rev_ident)
      with \<open>rev ?t \<noteq> []\<close> show ?thesis by (cases "rev ?t") auto
    qed
    have 1: "dropWhile is_white_space (rev ?t) = rev ?t"
      using hd_rev d \<open>rev ?t \<noteq> []\<close> by (cases "rev ?t") auto
    have 2: "dropWhile is_white_space ?t = ?t"
      using Cons c by simp
    show ?thesis by (simp add: trim_def 1 2)
  qed
qed

subsection \<open>The coercion of typed text\<close>

lemma substr_inner: "substr v (Suc 0) (int (length v) - 2) = butlast (tl v)"
proof -
  have "nat (int (length v) - 2) = length v - 2" by simp
  then show ?thesis
    by (cases v) (simp_all add: substr_def butlast_conv_take drop_Suc)
qed

lemma char_at0_eq: "(char_at0 t = Some c) = (t \<noteq> [] \<and> hd t = c)"
  by (cases t) (simp_all add: char_at0_def)

text \<open>
  C7. \<open>convertToRuntime\<close> is a function of its trimmed input and nothing else, and it
  decides in this order: the text \<open>true\<close> or \<open>false\<close> is the boolean; text that starts
  with a single or a double quote is the string without its first and its last
  character; text that \<open>parseFloat\<close> turns into a number is that number; any other
  text is the trimmed string itself.
\<close>

theorem convertToRuntime_precedence:
  "convertToRuntime env v =
     (if trim v = ''true'' then VBool True
      else if trim v = ''false'' then VBool False
      else if trim v \<noteq> [] \<and> (hd (trim v) = CHR 0x27 \<or> hd (trim v) = CHR 0x22)
        then VStr (butlast (tl (trim v)))
      else (case parseFloat env (trim v) of Some n \<Rightarrow> VNum n | None \<Rightarrow> VStr (trim v)))
   \<and> convertToRuntime env (trim v) = convertToRuntime env v"
  by (simp add: convertToRuntime_def Let_def trim_idem char_at0_eq substr_inner)

theorem convertToRuntime_precedence_witness:
  "convertToRuntime example_env ''  42 '' = VNum (Finite 42)
   \<and> convertToRuntime example_env '' 'ab'  '' = VStr ''ab''
   \<and> convertToRuntime example_env ''true '' = VBool True
   \<and> convertToRuntime example_env ''4x2'' = VStr ''4x2''"
  using convertToRuntime_precedence [of example_env "''  42 ''"]
    convertToRuntime_precedence [of example_env "'' 'ab'  ''"]
    convertToRuntime_precedence [of example_env "''true ''"]
    convertToRuntime_precedence [of example_env "''4x2''"]
  by (simp add: trim_def is_white_space_def example_env_def)

subsection \<open>Messages of the backend\<close>

lemma map_of_assign_key:
  "map_of (assign_key kvs k v) k' = (if k' = k then Some v else map_of kvs k')"
  by (induction kvs) auto

lemma obj_prop_with_seq_0:
  "obj_prop msg ''type'' = Some t \<Longrightarrow>
   obj_prop (with_seq_0 msg) k = (if k = ''seq'' then Some (JNum (Finite 0)) else obj_prop msg k)"
  by (cases msg) (simp_all add: obj_prop_def with_seq_0_def set_prop_def map_of_assign_key)

lemma handle_event_client:
  "\<exists>new. client (snd (handle_event env msg s)) = client s @ new
     \<and> (obj_prop msg ''event'' \<in> set (map (\<lambda>e. Some (JStr e)) [''terminated'', ''exited'', ''stopped''])
          \<longrightarrow> (\<exists>rest. new = Event (Proxied (with_seq_0 msg)) # rest \<and> list_all (\<lambda>m. proxied_json m = None) rest))
     \<and> (\<forall>m \<in> set new. proxied_json m = None \<or> proxied_json m = Some (with_seq_0 msg))"
  by (auto simp: handle_event_def Let_def split: sum.splits)

lemma handle_response_client:
  "\<exists>new. client (handle_response msg s) = client s @ new
     \<and> (obj_prop msg ''command'' \<in> set (map (\<lambda>c. Some (JStr c))
              [''launch'', ''threads'', ''stackTrace'', ''scopes'', ''variables'',
               ''setBreakpoints'', ''continue'', ''next'', ''stepIn'', ''stepOut''])
          \<longrightarrow> new = [ProxiedResponse (with_seq_0 msg)])
     \<and> (\<forall>m \<in> set new. proxied_json m = Some (with_seq_0 msg))"
  by (auto simp: handle_response_def Let_def proxied_commands_def split: option.splits json.splits)


lemma one_message_client:
  "\<exists>new. client (snd (handleRingRdbDapOneMessage env data s)) = client s @ new
     \<and> list_all seq_normalised new"
proof (cases "JSON_parse env data")
  case None
  then show ?thesis by (simp add: handleRingRdbDapOneMessage_def)
next
  case (Some msg)
  show ?thesis
  proof (cases "get_prop (Some msg) ''type''")
    case (Inl e)
    with Some show ?thesis by (simp add: handleRingRdbDapOneMessage_def)
  next
    case (Inr ty)
    then have ty: "obj_prop msg ''type'' = ty"
      by (auto simp: get_prop_def obj_prop_def split: json.splits)
    consider (ev) "ty = Some (JStr ''event'')" | (resp) "ty = Some (JStr ''response'')"
      | (other) "ty \<noteq> Some (JStr ''event'')" "ty \<noteq> Some (JStr ''response'')" by blast
    then show ?thesis
    proof cases
      case ev
      from handle_event_client [of env msg s] obtain new where
        n: "client (snd (handle_event env msg s)) = client s @ new"
        "\<forall>m \<in> set new. proxied_json m = None \<or> proxied_json m = Some (with_seq_0 msg)" by blast
      have "list_all seq_normalised new"
        using n(2) ty ev obj_prop_with_seq_0 [of msg "JStr ''event''" "''seq''"]
        by (auto simp: list_all_iff seq_normalised_def)
      with n(1) Some Inr ev show ?thesis by (simp add: handleRingRdbDapOneMessage_def)
    next
      case resp
      from handle_response_client [of msg s] obtain new where
        n: "client (handle_response msg s) = client s @ new"
        "\<forall>m \<in> set new. proxied_json m = Some (with_seq_0 msg)" by blast
      have "list_all seq_normalised new"
        using n(2) ty resp obj_prop_with_seq_0 [of msg "JStr ''response''" "''seq''"]
        by (auto simp: list_all_iff seq_normalised_def)
      with n(1) Some Inr resp show ?thesis by (simp add: handleRingRdbDapOneMessage_def)
    next
      case other
      with Some Inr show ?thesis by (simp add: handleRingRdbDapOneMessage_def)
    qed
  qed
qed

lemma handle_lines_client:
  "\<exists>new. client (snd (handle_lines env ls s)) = client s @ new \<and> list_all seq_normalised new"
proof (induction ls arbitrary: s)
  case Nil
  then show ?case by simp
next
  case (Cons l ls)
  show ?case
  proof (cases "length l > 0")
    case False
    with Cons.IH [of s] show ?thesis by simp
  next
    case True
    let ?s0 = "showDebugRdbLog ''receive'' l s"
    obtain e s1 where r: "handleRingRdbDapOneMessage env l ?s0 = (e, s1)" by fastforce
    from one_message_client [of env l ?s0] r obtain n1 where
      n1: "client s1 = client s @ n1" "list_all seq_normalised n1" by auto
    show ?thesis
    proof (cases e)
      case (Some err)
      with True r n1 show ?thesis by simp
    next
      case None
      from Cons.IH [of s1] obtain n2 where
        n2: "client (snd (handle_lines env ls s1)) = client s1 @ n2" "list_all seq_normalised n2" by blast
      with True r None n1 show ?thesis by simp
    qed
  qed
qed

text \<open>
  C1. A line of the backend that parses to a recognised message (an event \<open>terminated\<close>,
  \<open>exited\<close> or \<open>stopped\<close>, or a response to one of the ten proxied commands) makes
  \<open>handleRingRdbDapOneMessage\<close> hand the client the parsed object with \<open>seq\<close> set to 0
  first, and nothing else of the backend after it; the object's \<open>body\<close>, and every
  other key than \<open>seq\<close>, is as parsed. Whatever a chunk of the backend holds, every
  object of the backend that \<open>handleRingRdbDapMessage\<close> hands to the client has \<open>seq\<close> 0.
\<close>

theorem proxied_message_seq_0:
  assumes "JSON_parse env data = Some msg" and "recognised msg"
  shows "(\<exists>rest. client (snd (handleRingRdbDapOneMessage env data s)) = client s @ forwarded msg # rest
            \<and> list_all (\<lambda>m. proxied_json m = None) rest)
       \<and> proxied_json (forwarded msg) = Some (with_seq_0 msg)
       \<and> obj_prop (with_seq_0 msg) ''seq'' = Some (JNum (Finite 0))
       \<and> obj_prop (with_seq_0 msg) ''body'' = obj_prop msg ''body''
       \<and> (\<forall>k. k \<noteq> ''seq'' \<longrightarrow> obj_prop (with_seq_0 msg) k = obj_prop msg k)
       \<and> (\<exists>new. client (snd (handleRingRdbDapMessage env chunk s)) = client s @ new
            \<and> list_all seq_normalised new)"
proof -
  from assms(2) obtain t where t: "obj_prop msg ''type'' = Some t"
    by (auto simp: recognised_def)
  then have g: "get_prop (Some msg) ''type'' = Inr (Some t)"
    by (cases msg) (simp_all add: get_prop_def obj_prop_def)
  have 1: "\<exists>rest. client (snd (handleRingRdbDapOneMessage env data s)) = client s @ forwarded msg # rest
            \<and> list_all (\<lambda>m. proxied_json m = None) rest"
  proof (cases "t = JStr ''event''")
    case True
    with assms(2) t have
      "obj_prop msg ''event'' \<in> set (map (\<lambda>e. Some (JStr e)) [''terminated'', ''exited'', ''stopped''])"
      by (simp add: recognised_def)
    with handle_event_client [of env msg s] obtain rest where
      "client (snd (handle_event env msg s)) = client s @ Event (Proxied (with_seq_0 msg)) # rest"
      "list_all (\<lambda>m. proxied_json m = None) rest" by auto
    with True t g assms(1) show ?thesis
      by (simp add: handleRingRdbDapOneMessage_def forwarded_def)
  next
    case False
    with assms(2) t have r: "t = JStr ''response''"
      and "obj_prop msg ''command'' \<in> set (map (\<lambda>c. Some (JStr c))
              [''launch'', ''threads'', ''stackTrace'', ''scopes'', ''variables'',
               ''setBreakpoints'', ''continue'', ''next'', ''stepIn'', ''stepOut''])"
      by (auto simp: recognised_def)
    with handle_response_client [of msg s] have
      "client (handle_response msg s) = client s @ [ProxiedResponse (with_seq_0 msg)]" by auto
    with r t g assms(1) show ?thesis
      by (simp add: handleRingRdbDapOneMessage_def forwarded_def)
  qed
  have 2: "proxied_json (forwarded msg) = Some (with_seq_0 msg)"
    by (simp add: forwarded_def)
  have 3: "obj_prop (with_seq_0 msg) k = (if k = ''seq'' then Some (JNum (Finite 0)) else obj_prop msg k)" for k
    using t by (rule obj_prop_with_seq_0)
  have 4: "\<exists>new. client (snd (handleRingRdbDapMessage env chunk s)) = client s @ new
            \<and> list_all seq_normalised new"
    unfolding handleRingRdbDapMessage_def by (rule handle_lines_client)
  from 1 2 3 4 show ?thesis by simp
qed

theorem proxied_message_seq_0_witness:
  "JSON_parse example_env threads_line =
     Some (JObj [(''type'', JStr ''response''), (''seq'', JNum (Finite 7)),
                 (''command'', JStr ''threads''), (''body'', JObj [(''threads'', JArr [])])])
   \<and> recognised (JObj [(''type'', JStr ''response''), (''seq'', JNum (Finite 7)),
                 (''command'', JStr ''threads''), (''body'', JObj [(''threads'', JArr [])])])
   \<and> client (snd (handleRingRdbDapOneMessage example_env threads_line new_session)) =
       [ProxiedResponse (JObj [(''type'', JStr ''response''), (''seq'', JNum (Finite 0)),
                 (''command'', JStr ''threads''), (''body'', JObj [(''threads'', JArr [])])])]
   \<and> client (snd (handleRingRdbDapOneMessage example_env exited_line new_session)) =
       [Event (Proxied (JObj [(''type'', JStr ''event''), (''event'', JStr ''exited''),
                              (''seq'', JNum (Finite 0)),
                              (''body'', JObj [(''exitCode'', JNum (Finite 3))])])),
        Event (OutputEvent ''ring process exited with code 3\<newline>'' ''stderr''),
        Event TerminatedEvent]"
proof -
  let ?m = "JObj [(''type'', JStr ''response''), (''seq'', JNum (Finite 7)),
                 (''command'', JStr ''threads''), (''body'', JObj [(''threads'', JArr [])])]"
  have p: "JSON_parse example_env threads_line = Some ?m"
    by (simp add: example_env_def example_parse_def)
  have r: "recognised ?m"
    by (simp add: recognised_def obj_prop_def)
  have f: "forwarded ?m = ProxiedResponse (JObj [(''type'', JStr ''response''), (''seq'', JNum (Finite 0)),
                 (''command'', JStr ''threads''), (''body'', JObj [(''threads'', JArr [])])])"
    by (simp add: forwarded_def obj_prop_def with_seq_0_def set_prop_def)
  from proxied_message_seq_0 [OF p r, of new_session] obtain rest where
    "client (snd (handleRingRdbDapOneMessage example_env threads_line new_session)) =
       client new_session @ forwarded ?m # rest" "list_all (\<lambda>m. proxied_json m = None) rest"
    by blast
  moreover have "client (snd (handleRingRdbDapOneMessage example_env threads_line new_session)) =
       [forwarded ?m]"
    using p by (simp add: handleRingRdbDapOneMessage_def get_prop_def handle_response_def obj_prop_def
        proxied_commands_def Let_def forwarded_def new_session_def)
  moreover have "client (snd (handleRingRdbDapOneMessage example_env exited_line new_session)) =
       [Event (Proxied (JObj [(''type'', JStr ''event''), (''event'', JStr ''exited''),
                              (''seq'', JNum (Finite 0)),
                              (''body'', JObj [(''exitCode'', JNum (Finite 3))])])),
        Event (OutputEvent ''ring process exited with code 3\<newline>'' ''stderr''),
        Event TerminatedEvent]"
  proof -
    have q: "JSON_parse example_env exited_line =
        Some (JObj [(''type'', JStr ''event''), (''event'', JStr ''exited''),
                    (''seq'', JNum (Finite 9)),
                    (''body'', JObj [(''exitCode'', JNum (Finite 3))])])"
      by (simp add: example_env_def example_parse_def threads_line_def exited_line_def)
    have t: "ToString example_env (Some (JNum (Finite 3))) = ''3''"
      by (simp add: example_env_def show_int_def show_nat_digit digit_char_def)
    show ?thesis
      by (simp add: handleRingRdbDapOneMessage_def q get_prop_def handle_event_def obj_prop_def
          with_seq_0_def set_prop_def Let_def t new_session_client)
  qed
  ultimately show ?thesis using p r f by simp
qed

lemma split_lf_no_lf: "CHR 0x0A \<notin> set l \<Longrightarrow> split_lf l = [l]"
  by (induction l) auto

lemma split_lf_line:
  "CHR 0x0A \<notin> set l \<Longrightarrow> split_lf (l @ CHR 0x0A # rest) = l # split_lf rest"
  by (induction l) auto

lemma untyped_skipped:
  assumes "JSON_parse env l = Some msg" "msg \<noteq> JNull"
    "obj_prop msg ''type'' \<noteq> Some (JStr ''event'')" "obj_prop msg ''type'' \<noteq> Some (JStr ''response'')"
  shows "handleRingRdbDapOneMessage env l s = (None, s)"
  using assms
  by (cases msg) (simp_all add: handleRingRdbDapOneMessage_def get_prop_def obj_prop_def)

text \<open>
  C2, as the code has it. \<open>handleRingRdbDapMessage\<close> takes the chunk line by line, in
  order: the first line is handled and, unless that raised, the rest of the chunk
  follows; an empty line is passed over; the last line needs no line feed. A line that
  parses to a value other than \<open>null\<close> whose \<open>type\<close> is neither \<open>event\<close> nor
  \<open>response\<close> is skipped: the session is as before, nothing is sent and nothing is
  raised. A line that does not parse raises a SyntaxError out of
  \<open>handleRingRdbDapMessage\<close>, and a line that parses to \<open>null\<close> a TypeError; the
  lines after it in the chunk are not handled. The line is logged before it is parsed
  only when the debug flag is set.
\<close>

theorem backend_chunk_handling:
  assumes "CHR 0x0A \<notin> set l" and "l \<noteq> []"
  shows "handleRingRdbDapMessage env (l @ CHR 0x0A # rest) s =
           (case handleRingRdbDapOneMessage env l (showDebugRdbLog ''receive'' l s) of
              (Some e, s') \<Rightarrow> (Some e, s')
            | (None, s') \<Rightarrow> handleRingRdbDapMessage env rest s')
       \<and> handleRingRdbDapMessage env (CHR 0x0A # rest) s = handleRingRdbDapMessage env rest s
       \<and> handleRingRdbDapMessage env l s =
           (case handleRingRdbDapOneMessage env l (showDebugRdbLog ''receive'' l s) of
              (Some e, s') \<Rightarrow> (Some e, s')
            | (None, s') \<Rightarrow> (None, s'))
       \<and> handleRingRdbDapMessage env [] s = (None, s)
       \<and> (JSON_parse env l = Some msg \<and> msg \<noteq> JNull
            \<and> obj_prop msg ''type'' \<noteq> Some (JStr ''event'')
            \<and> obj_prop msg ''type'' \<noteq> Some (JStr ''response'')
          \<longrightarrow> handleRingRdbDapOneMessage env l s = (None, s)
            \<and> handleRingRdbDapMessage env (l @ CHR 0x0A # rest) s =
                handleRingRdbDapMessage env rest (showDebugRdbLog ''receive'' l s))
       \<and> (JSON_parse env l = None
          \<longrightarrow> handleRingRdbDapMessage env (l @ CHR 0x0A # rest) s =
                (Some SyntaxError, showDebugRdbLog ''receive'' l s))
       \<and> (JSON_parse env l = Some JNull
          \<longrightarrow> handleRingRdbDapMessage env (l @ CHR 0x0A # rest) s =
                (Some TypeError, showDebugRdbLog ''receive'' l s))
       \<and> (\<not> showDebugRdbLog_flag s \<longrightarrow> showDebugRdbLog ''receive'' l s = s)"
proof -
  have 1: "handleRingRdbDapMessage env (l @ CHR 0x0A # rest) s =
           (case handleRingRdbDapOneMessage env l (showDebugRdbLog ''receive'' l s) of
              (Some e, s') \<Rightarrow> (Some e, s')
            | (None, s') \<Rightarrow> handleRingRdbDapMessage env rest s')"
    using assms by (simp add: handleRingRdbDapMessage_def split_lf_line split: prod.splits option.splits)
  have 2: "handleRingRdbDapMessage env (CHR 0x0A # rest) s = handleRingRdbDapMessage env rest s"
    by (simp add: handleRingRdbDapMessage_def)
  have 3: "handleRingRdbDapMessage env l s =
           (case handleRingRdbDapOneMessage env l (showDebugRdbLog ''receive'' l s) of
              (Some e, s') \<Rightarrow> (Some e, s')
            | (None, s') \<Rightarrow> (None, s'))"
    using assms by (simp add: handleRingRdbDapMessage_def split_lf_no_lf split: prod.splits option.splits)
  have 4: "handleRingRdbDapMessage env [] s = (None, s)"
    by (simp add: handleRingRdbDapMessage_def)
  have 5: "handleRingRdbDapOneMessage env l t = (None, t)"
    if "JSON_parse env l = Some msg" "msg \<noteq> JNull"
      "obj_prop msg ''type'' \<noteq> Some (JStr ''event'')" "obj_prop msg ''type'' \<noteq> Some (JStr ''response'')"
    for t using that by (rule untyped_skipped)
  have 6: "handleRingRdbDapOneMessage env l t = (Some SyntaxError, t)"
    if "JSON_parse env l = None" for t
    using that by (simp add: handleRingRdbDapOneMessage_def)
  have 7: "\<not> showDebugRdbLog_flag s \<longrightarrow> showDebugRdbLog ''receive'' l s = s"
    by (simp add: showDebugRdbLog_def)
  have 8: "handleRingRdbDapOneMessage env l t = (Some TypeError, t)"
    if "JSON_parse env l = Some JNull" for t
    using that by (simp add: handleRingRdbDapOneMessage_def get_prop_def)
  show ?thesis
    unfolding 1 using 2 3 4 5 6 7 8 by (auto simp del: split_paired_All)
qed

text \<open>
  The claim C2 itself fails: a chunk whose first line does not parse raises, nothing is
  logged and the well-formed line after it never reaches the client.
\<close>

theorem unparseable_line_counterexample:
  "fst (handleRingRdbDapMessage example_env (''not json\<newline>'' @ threads_line) new_session) = Some SyntaxError
   \<and> client (snd (handleRingRdbDapMessage example_env (''not json\<newline>'' @ threads_line) new_session)) = []
   \<and> console (snd (handleRingRdbDapMessage example_env (''not json\<newline>'' @ threads_line) new_session)) = []"
proof -
  have p: "JSON_parse example_env ''not json'' = None"
    by (simp add: example_env_def example_parse_def threads_line_def exited_line_def untyped_line_def)
  have "handleRingRdbDapMessage example_env (''not json'' @ CHR 0x0A # threads_line) new_session =
          (Some SyntaxError, new_session)"
    by (simp add: handleRingRdbDapMessage_def handleRingRdbDapOneMessage_def p
        showDebugRdbLog_def new_session_def)
  then show ?thesis by (simp add: new_session_def)
qed

theorem backend_chunk_handling_witness:
  "CHR 0x0A \<notin> set ''not json'' \<and> ''not json'' \<noteq> [] \<and> JSON_parse example_env ''not json'' = None
   \<and> handleRingRdbDapMessage example_env (''not json'' @ CHR 0x0A # threads_line) new_session =
        (Some SyntaxError, new_session)
   \<and> JSON_parse example_env untyped_line = Some (JObj [(''seq'', JNum (Finite 1))])
   \<and> handleRingRdbDapOneMessage example_env untyped_line new_session = (None, new_session)"
proof -
  have a: "CHR 0x0A \<notin> set ''not json''" "''not json'' \<noteq> []" by simp_all
  have p: "JSON_parse example_env ''not json'' = None"
    by (simp add: example_env_def example_parse_def threads_line_def exited_line_def untyped_line_def)
  have f: "showDebugRdbLog ''receive'' l new_session = new_session" for l
    by (simp add: showDebugRdbLog_def new_session_def)
  have b: "CHR 0x0A \<notin> set untyped_line" "untyped_line \<noteq> []"
    by (simp_all add: untyped_line_def)
  have q: "JSON_parse example_env untyped_line = Some (JObj [(''seq'', JNum (Finite 1))])"
    by (simp add: example_env_def example_parse_def threads_line_def exited_line_def untyped_line_def)
  have t: "obj_prop (JObj [(''seq'', JNum (Finite 1))]) ''type'' = None"
    by (simp add: obj_prop_def)
  from backend_chunk_handling [OF a, of example_env threads_line new_session] p f
  have 1: "handleRingRdbDapMessage example_env (''not json'' @ CHR 0x0A # threads_line) new_session =
        (Some SyntaxError, new_session)" by (simp add: handleRingRdbDapOneMessage_def)
  from backend_chunk_handling [OF b, of example_env "[]" new_session "JObj [(''seq'', JNum (Finite 1))]"] q t
  have 2: "handleRingRdbDapOneMessage example_env untyped_line new_session = (None, new_session)"
    by simp
  from a p 1 q 2 show ?thesis by simp
qed

subsection \<open>Formatting\<close>

text \<open>
  C8. The custom request \<open>toggleFormatting\<close> flips the flag \<open>_valuesInHex\<close>, so after
  two of them \<open>formatNumber\<close> renders every number as before. Each one hands the client
  its response, preceded by an invalidated event for the variables when the flag
  \<open>_useInvalidatedEvent\<close> is set; that flag is set by an \<open>initialize\<close> request whose
  \<open>supportsInvalidatedEvent\<close> is true, and the custom request leaves it alone.
\<close>

theorem toggleFormatting_twice:
  "formatNumber env (customRequest ''toggleFormatting'' r2 (customRequest ''toggleFormatting'' r1 s)) x
     = formatNumber env s x
   \<and> valuesInHex (customRequest ''toggleFormatting'' r1 s) = (\<not> valuesInHex s)
   \<and> client (customRequest ''toggleFormatting'' r1 s) =
       client s @ (if useInvalidatedEvent s then [Event (InvalidatedEvent [''variables''])] else [])
         @ [Response r1]
   \<and> useInvalidatedEvent (customRequest ''toggleFormatting'' r1 s) = useInvalidatedEvent s
   \<and> useInvalidatedEvent (initializeRequest r0 p i s) = (i = Some True \<or> useInvalidatedEvent s)"
  by (simp add: customRequest_def formatNumber_def Let_def initializeRequest_def newRdbProcess_def
      sendEvent_def sendResponse_def console_log_def)

theorem toggleFormatting_twice_witness:
  "formatNumber example_env (initializeRequest (new_Response 1 ''initialize'') None (Some True) new_session) (Finite 255) = ''255''
   \<and> formatNumber example_env
        (customRequest ''toggleFormatting'' (new_Response 2 ''toggleFormatting'')
          (initializeRequest (new_Response 1 ''initialize'') None (Some True) new_session)) (Finite 255) = ''0xff''
   \<and> formatNumber example_env
        (customRequest ''toggleFormatting'' (new_Response 3 ''toggleFormatting'')
          (customRequest ''toggleFormatting'' (new_Response 2 ''toggleFormatting'')
            (initializeRequest (new_Response 1 ''initialize'') None (Some True) new_session))) (Finite 255) = ''255''
   \<and> drop 2 (client (customRequest ''toggleFormatting'' (new_Response 2 ''toggleFormatting'')
          (initializeRequest (new_Response 1 ''initialize'') None (Some True) new_session)))
       = [Event (InvalidatedEvent [''variables'']), Response (new_Response 2 ''toggleFormatting'')]"
proof -
  let ?s0 = "initializeRequest (new_Response 1 ''initialize'') None (Some True) new_session"
  let ?s1 = "customRequest ''toggleFormatting'' (new_Response 2 ''toggleFormatting'') ?s0"
  have h0: "\<not> valuesInHex ?s0"
    by (simp add: initializeRequest_def Let_def newRdbProcess_def sendEvent_def sendResponse_def
        console_log_def new_session_def)
  have c0: "length (client ?s0) = 2"
    by (simp add: initializeRequest_def Let_def newRdbProcess_def console_log_def new_session_client)
  have f0: "formatNumber example_env ?s0 (Finite 255) = ''255''"
    using h0 by (simp add: formatNumber_def example_env_def show_int_def show_nat.simps digit_char_def)
  have f1: "formatNumber example_env ?s1 (Finite 255) = ''0xff''"
    using h0 toggleFormatting_twice [where env = example_env and s = ?s0
        and ?r1.0 = "new_Response 2 ''toggleFormatting''" and x = "Finite 255"]
    by (simp add: formatNumber_def example_env_def)
  have u0: "useInvalidatedEvent ?s0"
    using toggleFormatting_twice [where s = new_session and i = "Some True" and p = None
        and ?r0.0 = "new_Response 1 ''initialize''"] by simp
  from toggleFormatting_twice [where env = example_env and s = ?s0
        and ?r1.0 = "new_Response 2 ''toggleFormatting''" and ?r2.0 = "new_Response 3 ''toggleFormatting''"
        and x = "Finite 255"]
  show ?thesis using f0 f1 c0 u0 by simp
qed

subsection \<open>Writing variables\<close>

text \<open>
  C5. \<open>setExpressionRequest\<close> on an expression that starts with \<open>$\<close> and names no
  variable of the runtime logs and sends an error response with id 1002, the format
  \<open>variable '{lexpr}' not found\<close> and the expression as \<open>lexpr\<close>; on an expression that
  does not start with \<open>$\<close> it sends an error response with id 1003 and the format
  \<open>'{lexpr}' not an assignable expression\<close>. The handler returns in both cases.
\<close>

theorem setExpression_errors:
  "(starts_with expression ''$'' \<and> getLocalVariable (runtime s) (drop 1 expression) = None
      \<longrightarrow> setExpressionRequest env response expression new_value s =
            sendErrorResponse response
              \<lparr> err_id = 1002, err_format = ''variable '{lexpr}' not found'',
                err_variables = [(''lexpr'', expression)], err_showUser = True \<rparr>
              (console_log ''setExpressionRequest'' [] s))
   \<and> (\<not> starts_with expression ''$''
      \<longrightarrow> setExpressionRequest env response expression new_value s =
            sendErrorResponse response
              \<lparr> err_id = 1003, err_format = CHR 0x27 # ''{lexpr}' not an assignable expression'',
                err_variables = [(''lexpr'', expression)], err_showUser = True \<rparr>
              (console_log ''setExpressionRequest'' [] s))"
  by (simp add: setExpressionRequest_def Let_def console_log_def)

theorem setExpression_errors_witness:
  "starts_with ''$counter'' ''$''
   \<and> getLocalVariable (runtime new_session) (drop 1 ''$counter'') = None
   \<and> client (setExpressionRequest example_env (new_Response 5 ''setExpression'') ''$counter'' ''1'' new_session) =
        [ErrorResponse (new_Response 5 ''setExpression'')
           \<lparr> err_id = 1002, err_format = ''variable '{lexpr}' not found'',
             err_variables = [(''lexpr'', ''$counter'')], err_showUser = True \<rparr>]
   \<and> \<not> starts_with ''counter'' ''$''
   \<and> client (setExpressionRequest example_env (new_Response 6 ''setExpression'') ''counter'' ''1'' new_session) =
        [ErrorResponse (new_Response 6 ''setExpression'')
           \<lparr> err_id = 1003, err_format = CHR 0x27 # ''{lexpr}' not an assignable expression'',
             err_variables = [(''lexpr'', ''counter'')], err_showUser = True \<rparr>]"
proof -
  have a: "starts_with ''$counter'' ''$''" "\<not> starts_with ''counter'' ''$''"
    by (simp_all add: starts_with_def)
  have b: "getLocalVariable (runtime new_session) (drop 1 ''$counter'') = None"
    by (simp add: getLocalVariable_def new_session_def)
  from setExpression_errors [where expression = "''$counter''" and s = new_session
        and env = example_env and response = "new_Response 5 ''setExpression''" and new_value = "''1''"]
    setExpression_errors [where expression = "''counter''" and s = new_session
        and env = example_env and response = "new_Response 6 ''setExpression''" and new_value = "''1''"]
    a b
  show ?thesis by (simp add: new_session_client)
qed

lemma client_ensure_reference:
  "(\<And>t. client (snd (rhs t)) = client t) \<Longrightarrow> client (snd (ensure_reference a rhs s)) = client s"
  by (auto simp: ensure_reference_def Handles_create_def Let_def split: option.splits prod.splits)
    (metis snd_conv)

lemma client_lazy_wrapper: "client (snd (lazy_wrapper a s)) = client s"
  by (simp add: lazy_wrapper_def new_RuntimeVariable_def Let_def)

lemma client_convertFromRuntime [simp]: "client (snd (convertFromRuntime env a s)) = client s"
proof -
  have 1: "client (snd (ensure_reference a (lazy_wrapper a) t)) = client t" for t
    by (rule client_ensure_reference) (rule client_lazy_wrapper)
  have 2: "client (snd (ensure_reference a (\<lambda>t. (Variable a, t)) t)) = client t" for t
    by (rule client_ensure_reference) simp
  have e1: "ensure_reference a (lazy_wrapper a) t = (r, t') \<Longrightarrow> client t' = client t" for t r t'
    using 1 [of t] by simp
  have e2: "ensure_reference a (\<lambda>t. (Variable a, t)) t = (r, t') \<Longrightarrow> client t' = client t" for t r t'
    using 2 [of t] by simp
  show ?thesis
    by (auto simp: convertFromRuntime_def Let_def dest!: e1 e2
        split: prod.splits option.splits rt_value.splits if_splits)
qed

lemma setVariable_target_console_log [simp]:
  "setVariable_target (console_log l a s) r n = setVariable_target s r n"
  by (simp add: setVariable_target_def console_log_def
      split: option.splits handle_value.splits rt_value.splits)

text \<open>
  C10. When the reference and the name of a \<open>setVariable\<close> request lead to no
  variable, \<open>setVariableRequest\<close> logs and sends the response as it received it, and
  the store, the runtime and the handle table are as before. Whatever the request,
  nothing that \<open>setVariableRequest\<close> hands to the client is an error response.
\<close>

theorem setVariable_not_found:
  "(setVariable_target s variablesReference n = None
      \<longrightarrow> setVariableRequest env response variablesReference n new_value s =
            sendResponse response (console_log ''setVariableRequest args:'' [] s)
          \<and> client (setVariableRequest env response variablesReference n new_value s) =
              client s @ [Response response]
          \<and> store (setVariableRequest env response variablesReference n new_value s) = store s
          \<and> runtime (setVariableRequest env response variablesReference n new_value s) = runtime s
          \<and> variableHandles (setVariableRequest env response variablesReference n new_value s) =
              variableHandles s)
   \<and> (\<exists>new. client (setVariableRequest env response variablesReference n new_value s) = client s @ new
          \<and> list_all (\<lambda>m. \<not> is_error_response m) new)"
proof -
  have 1: "setVariableRequest env response variablesReference n new_value s =
            sendResponse response (console_log ''setVariableRequest args:'' [] s)"
    if "setVariable_target s variablesReference n = None"
    using that by (simp add: setVariableRequest_def Let_def)
  have 2: "\<exists>new. client (setVariableRequest env response variablesReference n new_value s) = client s @ new
          \<and> list_all (\<lambda>m. \<not> is_error_response m) new"
  proof (cases "setVariable_target s variablesReference n")
    case None
    then show ?thesis by (simp add: 1)
  next
    case (Some a)
    let ?s1 = "assign_value env a new_value (console_log ''setVariableRequest args:'' [] s)"
    have c: "client (snd (convertFromRuntime env a ?s1)) = client s"
      by (simp add: assign_value_def)
    obtain dv s2 where d: "convertFromRuntime env a ?s1 = (dv, s2)" by fastforce
    with c have "client s2 = client s" by simp
    with Some d show ?thesis
      by (auto simp: setVariableRequest_def Let_def split: option.splits)
  qed
  show ?thesis using 1 2 by (simp add: sendResponse_def console_log_def)
qed

theorem setVariable_not_found_witness:
  "setVariable_target new_session 1000 ''x'' = None
   \<and> client (setVariableRequest example_env (new_Response 4 ''setVariable'') 1000 ''x'' ''1'' new_session) =
        [Response (new_Response 4 ''setVariable'')]
   \<and> body (new_Response 4 ''setVariable'') = None"
proof -
  have t: "setVariable_target new_session 1000 ''x'' = None"
    by (simp add: setVariable_target_def Handles_get_def num_of_int_def new_session_def)
  from setVariable_not_found [where s = new_session and variablesReference = 1000 and n = "''x''"
      and env = example_env and response = "new_Response 4 ''setVariable''" and new_value = "''1''"] t
  show ?thesis by (simp add: new_session_client new_Response_def)
qed

subsection \<open>Reading memory\<close>

lemma subarray_nonneg:
  assumes "0 \<le> offset" "0 \<le> count"
  shows "subarray mem (min offset (int (length mem))) (min (offset + count) (int (length mem))) =
         take (nat count) (drop (nat offset) mem)"
proof -
  let ?len = "length mem"
  have b: "relative_index (min offset (int ?len)) ?len = min (nat offset) ?len"
    using assms by (auto simp: relative_index_def min_def)
  have e: "relative_index (min (offset + count) (int ?len)) ?len = min (nat offset + nat count) ?len"
    using assms by (auto simp: relative_index_def min_def nat_add_distrib)
  show ?thesis
    unfolding subarray_def Let_def b e
    by (cases "nat offset \<le> ?len") (auto simp: min_def)
qed

text \<open>
  C9. When the memory reference leads to no variable with a memory buffer,
  \<open>readMemoryRequest\<close> answers with empty data and \<open>unreadableBytes\<close> equal to the
  count. When it leads to a buffer, the data encode
  \<open>subarray(min(offset, length), min(offset + count, length))\<close> of the buffer, and
  \<open>unreadableBytes\<close> is the count less the length of that segment; for an offset and a
  count that are not negative the segment is the \<open>count\<close> bytes from \<open>offset\<close>, as far
  as the buffer reaches. A request without offset is read at offset 0.
\<close>

theorem readMemory_body:
  "(memory_of s (Handles_get (variableHandles s) (ToNumber env memoryReference)) = None
      \<longrightarrow> client (readMemoryRequest env response (Some offset) count memoryReference s) =
            client s @ [Response (response\<lparr>body := Some (ReadMemoryBody (show_int offset) '''' count)\<rparr>)])
   \<and> (memory_of s (Handles_get (variableHandles s) (ToNumber env memoryReference)) = Some mem
      \<longrightarrow> client (readMemoryRequest env response (Some offset) count memoryReference s) =
            client s @ [Response (response\<lparr>body := Some (ReadMemoryBody (show_int offset)
              (fromByteArray env (subarray mem (min offset (int (length mem)))
                                              (min (offset + count) (int (length mem)))))
              (count - int (length (subarray mem (min offset (int (length mem)))
                                              (min (offset + count) (int (length mem)))))))\<rparr>)])
   \<and> (0 \<le> offset \<and> 0 \<le> count
      \<longrightarrow> subarray mem (min offset (int (length mem))) (min (offset + count) (int (length mem))) =
          take (nat count) (drop (nat offset) mem))
   \<and> readMemoryRequest env response None count memoryReference s =
       readMemoryRequest env response (Some 0) count memoryReference s"
proof -
  have h: "variableHandles (console_log l a s) = variableHandles s" for l a
    by (simp add: console_log_def)
  have st: "store (console_log l a s) = store s" for l a
    by (simp add: console_log_def)
  show ?thesis
    by (auto simp: readMemoryRequest_def Let_def memory_of_def h st subarray_nonneg
        split: option.splits handle_value.splits)
qed

theorem readMemory_body_witness:
  "memory_of memory_session (Handles_get (variableHandles memory_session) (ToNumber example_env ''1000''))
     = Some [0x61, 0x62, 0x63, 0x64]
   \<and> client (readMemoryRequest example_env (new_Response 8 ''readMemory'') (Some 1) 10 ''1000'' memory_session) =
        [Response ((new_Response 8 ''readMemory'')\<lparr>body := Some (ReadMemoryBody ''1'' ''bcd'' 7)\<rparr>)]
   \<and> memory_of memory_session (Handles_get (variableHandles memory_session) (ToNumber example_env ''locals''))
     = None
   \<and> client (readMemoryRequest example_env (new_Response 9 ''readMemory'') (Some 1) 10 ''locals'' memory_session) =
        [Response ((new_Response 9 ''readMemory'')\<lparr>body := Some (ReadMemoryBody ''1'' '''' 10)\<rparr>)]"
proof -
  have m: "memory_of memory_session (Handles_get (variableHandles memory_session) (ToNumber example_env ''1000''))
     = Some [0x61, 0x62, 0x63, 0x64]"
    by (simp add: memory_of_def Handles_get_def memory_session_def example_env_def)
  have n: "memory_of memory_session (Handles_get (variableHandles memory_session) (ToNumber example_env ''locals''))
     = None"
    by (simp add: memory_of_def Handles_get_def memory_session_def example_env_def)
  have c: "client memory_session = []"
    by (simp add: memory_session_def new_session_def)
  have s: "show_int 1 = ''1''"
    by (simp add: show_int_def show_nat.simps digit_char_def)
  have "map (\<lambda>b. char_of (unat b)) [0x62, 0x63, 0x64 :: byte] = ''bcd''"
    by code_simp
  then have f: "fromByteArray example_env [0x62, 0x63, 0x64] = ''bcd''"
    by (simp add: example_env_def)
  from readMemory_body [where s = memory_session and env = example_env and memoryReference = "''1000''"
      and response = "new_Response 8 ''readMemory''" and offset = 1 and count = 10
      and mem = "[0x61, 0x62, 0x63, 0x64]"]
    readMemory_body [where s = memory_session and env = example_env and memoryReference = "''locals''"
      and response = "new_Response 9 ''readMemory''" and offset = 1 and count = 10
      and mem = "[]"]
    m n
  show ?thesis by (simp add: c s f)
qed

subsection \<open>Evaluate in the REPL\<close>

lemma exec_new_5: "exec_keyword_number ''new'' ''new 5'' = Some ''5''"
  by (simp add: match_keyword_number_at_def starts_with_def is_digit_def)

lemma parseInt_5: "parseInt_digits ''5'' = 5"
  by (simp add: parseInt_digits_def)

lemma convertToRuntime_new_5: "convertToRuntime example_env ''new 5'' = VStr ''new 5''"
  by (simp add: convertToRuntime_def trim_def is_white_space_def char_at0_def example_env_def)

text \<open>
  C6, at the request \<open>evaluate\<close> with context \<open>repl\<close> and expression \<open>new 5\<close> in a
  fresh session. The breakpoint record is made (at line 4 of the runtime, whose lines
  start at 0) and the breakpoint event for line 5 carries its id, and the REPL command
  sets the reply \<open>breakpoint created\<close>. The switch then falls through to the default
  case, which makes a variable of the expression, so the result of the response is the
  quoted expression and not the reply.
\<close>

theorem evaluate_new_reply_lost:
  "client (evaluateRequest example_env (new_Response 7 ''evaluate'') (Some ''repl'') ''new 5'' new_session) =
     [Event (BreakpointEvent ''new''
        \<lparr> bp_verified = False, bp_line = Some 5, bp_source = Some (Source ''''), bp_id = Some 1 \<rparr>),
      Response ((new_Response 7 ''evaluate'')
        \<lparr>body := Some (EvaluateBody (CHR 0x22 # ''new 5'' @ [CHR 0x22]) (Some ''string'') 0 False)\<rparr>)]
   \<and> breakPoints (runtime (evaluateRequest example_env (new_Response 7 ''evaluate'') (Some ''repl'') ''new 5'' new_session)) ''''
       = [\<lparr> rbp_id = 1, rbp_line = 4, rbp_verified = False \<rparr>]
   \<and> fst (repl_commands ''new 5'' new_session) = Some ''breakpoint created''"
  by (simp del: exec_keyword_number.simps
      add: evaluateRequest_def repl_commands_def exec_new_5 parseInt_5 convertToRuntime_new_5 Let_def setBreakPoint_def
      convertClientLineToDebugger_def convertDebuggerLineToClient_def createSource_def
      starts_with_def new_RuntimeVariable_def convertFromRuntime_def typeof_def
      sendEvent_def sendResponse_def console_log_def new_session_def)

subsection \<open>The launch\<close>

lemma resume_facts:
  assumes "ringRdbProcess s \<noteq> None"
  shows "ringRdbProcess (launchRequest_resume env pl s) \<noteq> None"
    and "written (launchRequest_resume env pl s) = written s @ [launch_line env pl]"
    and "notified (launchDone (launchRequest_resume env pl s)) = notified (launchDone s) + 1"
    and "configurationDone (launchRequest_resume env pl s) = configurationDone s"
    and "clock (launchRequest_resume env pl s) = clock s"
  using assms
  by (auto simp: launchRequest_resume_def sendRingRdbDapMessage_def showDebugRdbLog_def
      console_log_def sendEvent_def Let_def written_def launch_line_def split: option.splits)

lemma fold_resume:
  assumes "ringRdbProcess s \<noteq> None"
  shows "ringRdbProcess (fold (\<lambda>w. launchRequest_resume env (snd w)) ws s) \<noteq> None
       \<and> set (written (fold (\<lambda>w. launchRequest_resume env (snd w)) ws s)) =
           set (written s) \<union> launch_line env ` snd ` set ws
       \<and> notified (launchDone (fold (\<lambda>w. launchRequest_resume env (snd w)) ws s)) =
           notified (launchDone s) + length ws
       \<and> configurationDone (fold (\<lambda>w. launchRequest_resume env (snd w)) ws s) = configurationDone s
       \<and> clock (fold (\<lambda>w. launchRequest_resume env (snd w)) ws s) = clock s"
  using assms
proof (induction ws arbitrary: s)
  case Nil
  then show ?case by simp
next
  case (Cons w ws)
  note r = resume_facts [OF Cons.prems, of env "snd w"]
  from Cons.IH [OF r(1)] show ?case
    by (simp add: r)
qed

lemma elapse_facts:
  assumes "ringRdbProcess s \<noteq> None"
  shows "ringRdbProcess (elapse env d s) \<noteq> None"
    and "set (written (elapse env d s)) =
           set (written s) \<union> launch_line env ` snd ` {w \<in> set (waiters (configurationDone s)). fst w \<le> clock s + d}"
    and "notified (launchDone s) \<le> notified (launchDone (elapse env d s))"
    and "notified (launchDone (elapse env d s)) =
           notified (launchDone s) + length (filter (\<lambda>w. fst w \<le> clock s + d) (waiters (configurationDone s)))"
    and "waiters (configurationDone (elapse env d s)) =
           filter (\<lambda>w. \<not> fst w \<le> clock s + d) (waiters (configurationDone s))"
    and "clock (elapse env d s) = clock s + d"
proof -
  let ?s1 = "s\<lparr>clock := clock s + d,
                 configurationDone := (configurationDone s)\<lparr>waiters :=
                   filter (\<lambda>w. \<not> fst w \<le> clock s + d) (waiters (configurationDone s))\<rparr>\<rparr>"
  let ?due = "filter (\<lambda>w. fst w \<le> clock s + d) (waiters (configurationDone s))"
  have e: "elapse env d s = fold (\<lambda>w. launchRequest_resume env (snd w)) ?due ?s1"
    by (simp add: elapse_def Let_def)
  have p: "ringRdbProcess ?s1 \<noteq> None" using assms by simp
  have w: "written ?s1 = written s" by (simp add: written_def)
  note f = fold_resume [OF p, of env ?due]
  show "ringRdbProcess (elapse env d s) \<noteq> None" using f by (simp add: e)
  show "set (written (elapse env d s)) =
           set (written s) \<union> launch_line env ` snd ` {w \<in> set (waiters (configurationDone s)). fst w \<le> clock s + d}"
    using f by (simp add: e w)
  show "notified (launchDone (elapse env d s)) =
           notified (launchDone s) + length ?due"
    using f by (simp add: e)
  then show "notified (launchDone s) \<le> notified (launchDone (elapse env d s))" by simp
  show "waiters (configurationDone (elapse env d s)) =
           filter (\<lambda>w. \<not> fst w \<le> clock s + d) (waiters (configurationDone s))"
    using f by (simp add: e)
  show "clock (elapse env d s) = clock s + d" using f by (simp add: e)
qed

lemma launchRequest_facts:
  "ringRdbProcess (launchRequest r args s) = ringRdbProcess s"
  "written (launchRequest r args s) = written s"
  "launchDone (launchRequest r args s) = launchDone s"
  "clock (launchRequest r args s) = clock s"
  "waiters (configurationDone (launchRequest r args s)) =
     waiters (configurationDone s) @ [(clock s + 10000, \<lparr> pl_response = r, pl_args = args \<rparr>)]"
  by (simp_all add: launchRequest_def Let_def console_log_def written_def)

lemma attachRequest_eq:
  "attachRequest r args s = launchRequest r args (console_log ''attachRequest args:'' [Some (JObj args)] s)"
  by (simp add: attachRequest_def)

lemma console_log_facts:
  "ringRdbProcess (console_log l a s) = ringRdbProcess s"
  "written (console_log l a s) = written s"
  "launchDone (console_log l a s) = launchDone s"
  "clock (console_log l a s) = clock s"
  "configurationDone (console_log l a s) = configurationDone s"
  by (simp_all add: console_log_def written_def)

lemma configurationDoneRequest_facts:
  assumes "ringRdbProcess s \<noteq> None"
  shows "ringRdbProcess (configurationDoneRequest env r s) \<noteq> None"
    and "written (configurationDoneRequest env r s) =
           written s @ (case waiters (configurationDone s) of [] \<Rightarrow> []
                        | _ # _ \<Rightarrow> [launch_line env (snd (last (waiters (configurationDone s))))])"
    and "notified (launchDone (configurationDoneRequest env r s)) =
           notified (launchDone s) + (case waiters (configurationDone s) of [] \<Rightarrow> 0 | _ # _ \<Rightarrow> 1)"
    and "waiters (configurationDone (configurationDoneRequest env r s)) = butlast (waiters (configurationDone s))"
    and "clock (configurationDoneRequest env r s) = clock s"
proof -
  define s2 where "s2 = sendResponse r (console_log ''configurationDoneRequest args:'' [] s)"
  define s3 where "s3 = s2\<lparr>configurationDone := (configurationDone s2)\<lparr>waiters := butlast (waiters (configurationDone s2)),
                                                  notified := notified (configurationDone s2) + 1\<rparr>\<rparr>"
  have p: "ringRdbProcess s3 \<noteq> None"
    using assms by (simp add: s3_def s2_def sendResponse_def console_log_def)
  have q: "written s3 = written s" "launchDone s3 = launchDone s" "clock s3 = clock s"
    "waiters (configurationDone s3) = butlast (waiters (configurationDone s))"
    by (simp_all add: s3_def s2_def sendResponse_def console_log_def written_def)
  have w2: "waiters (configurationDone s2) = waiters (configurationDone s)"
    by (simp add: s2_def sendResponse_def console_log_def)
  note f = resume_facts [OF p, of env]
  have e: "configurationDoneRequest env r s =
      (case waiters (configurationDone s) of [] \<Rightarrow> s3
       | _ # _ \<Rightarrow> launchRequest_resume env (snd (last (waiters (configurationDone s)))) s3)"
    unfolding configurationDoneRequest_def Let_def s3_def [symmetric] s2_def [symmetric] w2
    unfolding s3_def w2 by (simp split: list.splits)
  show "ringRdbProcess (configurationDoneRequest env r s) \<noteq> None"
    unfolding e using p f(1) by (cases "waiters (configurationDone s)") simp_all
  show "written (configurationDoneRequest env r s) =
           written s @ (case waiters (configurationDone s) of [] \<Rightarrow> []
                        | _ # _ \<Rightarrow> [launch_line env (snd (last (waiters (configurationDone s))))])"
    unfolding e using f(2) q(1) by (cases "waiters (configurationDone s)") simp_all
  show "notified (launchDone (configurationDoneRequest env r s)) =
           notified (launchDone s) + (case waiters (configurationDone s) of [] \<Rightarrow> 0 | _ # _ \<Rightarrow> 1)"
    unfolding e using f(3) q(2) by (cases "waiters (configurationDone s)") simp_all
  show "waiters (configurationDone (configurationDoneRequest env r s)) = butlast (waiters (configurationDone s))"
    unfolding e using f(4) q(4) by (cases "waiters (configurationDone s)") simp_all
  show "clock (configurationDoneRequest env r s) = clock s"
    unfolding e using f(5) q(3) by (cases "waiters (configurationDone s)") simp_all
qed

lemma launch_state_simps [simp]:
  "launch_state (console_log l a s) = launch_state s"
  "launch_state (sendEvent e s) = launch_state s"
  "launch_state (sendProxiedResponse j s) = launch_state s"
  "launch_state (showDebugRdbLog d l s) = launch_state s"
  by (simp_all add: launch_state_def console_log_def sendEvent_def sendProxiedResponse_def
      showDebugRdbLog_def)

lemma launch_state_handle_event: "launch_state (snd (handle_event env msg s)) = launch_state s"
  by (simp add: handle_event_def Let_def split: sum.splits)

lemma launch_state_handle_response: "launch_state (handle_response msg s) = launch_state s"
  by (simp add: handle_response_def Let_def split: option.splits json.splits)

lemma launch_state_one_message:
  "launch_state (snd (handleRingRdbDapOneMessage env data s)) = launch_state s"
  by (simp add: handleRingRdbDapOneMessage_def launch_state_handle_event launch_state_handle_response
      split: option.splits sum.splits)

lemma launch_state_handle_lines:
  "launch_state (snd (handle_lines env ls s)) = launch_state s"
proof (induction ls arbitrary: s)
  case Nil
  then show ?case by simp
next
  case (Cons l ls)
  obtain e s1 where r: "handleRingRdbDapOneMessage env l (showDebugRdbLog ''receive'' l s) = (e, s1)"
    by fastforce
  with launch_state_one_message [of env l "showDebugRdbLog ''receive'' l s"]
  have 1: "launch_state s1 = launch_state s" by simp
  show ?case
  proof (cases e)
    case None
    with r 1 Cons.IH [of s1] Cons.IH [of s] show ?thesis by simp
  next
    case (Some err)
    with r 1 Cons.IH [of s] show ?thesis by simp
  qed
qed

lemma launch_under_way_step:
  assumes "launch_under_way env pl d n0 s"
  shows "launch_under_way env pl d n0 (step env s ev)"
proof -
  from assms have p: "ringRdbProcess s \<noteq> None" and n: "n0 \<le> notified (launchDone s)"
    and c: "launch_line env pl \<in> set (written s) \<and> n0 < notified (launchDone s)
         \<or> (d, pl) \<in> set (waiters (configurationDone s)) \<and> clock s < d"
    by (simp_all add: launch_under_way_def)
  show ?thesis
  proof (cases ev)
    case (LaunchRequest r args)
    with p n c show ?thesis
      by (auto simp: launch_under_way_def launchRequest_facts)
  next
    case (AttachRequest r args)
    with p n c show ?thesis
      by (auto simp: launch_under_way_def attachRequest_eq launchRequest_facts console_log_facts)
  next
    case (ConfigurationDoneRequest r)
    note f = configurationDoneRequest_facts [OF p, of env r]
    show ?thesis
    proof (cases "waiters (configurationDone s)")
      case Nil
      with p n c f ConfigurationDoneRequest show ?thesis
        by (auto simp: launch_under_way_def)
    next
      case (Cons w ws)
      then have ne: "waiters (configurationDone s) \<noteq> []" by simp
      from c show ?thesis
      proof
        assume "launch_line env pl \<in> set (written s) \<and> n0 < notified (launchDone s)"
        with f Cons ConfigurationDoneRequest show ?thesis
          by (auto simp: launch_under_way_def)
      next
        assume a: "(d, pl) \<in> set (waiters (configurationDone s)) \<and> clock s < d"
        then have "(d, pl) = last (waiters (configurationDone s))
                 \<or> (d, pl) \<in> set (butlast (waiters (configurationDone s)))"
          using ne by (metis append_butlast_last_id in_set_conv_decomp_last
              last_snoc rotate1.simps(2) set_ConsD set_rotate1)
        then show ?thesis
        proof
          assume l: "(d, pl) = last (waiters (configurationDone s))"
          then have "snd (last (waiters (configurationDone s))) = pl" by (metis snd_conv)
          with f Cons n ConfigurationDoneRequest show ?thesis
            by (auto simp: launch_under_way_def)
        next
          assume "(d, pl) \<in> set (butlast (waiters (configurationDone s)))"
          with f Cons n a ConfigurationDoneRequest show ?thesis
            by (auto simp: launch_under_way_def)
        qed
      qed
    qed
  next
    case (DisconnectRequest r args)
    with p n c show ?thesis
      by (auto simp: launch_under_way_def disconnectRequest_def console_log_facts)
  next
    case (BackendData data)
    have "launch_state (step env s ev) = launch_state s"
      by (simp add: BackendData handleRingRdbDapMessage_def launch_state_handle_lines)
    with p n c show ?thesis
      by (auto simp: launch_under_way_def launch_state_def written_def)
  next
    case (BackendOutput data)
    have "launch_state (step env s ev) = launch_state s"
      by (simp add: BackendOutput ringRdbProcess_on_stdout_def)
    with p n c show ?thesis
      by (auto simp: launch_under_way_def launch_state_def written_def)
  next
    case (ProcessClosed code)
    have "ringRdbProcess (ringRdbProcess_on_close code s) = ringRdbProcess s"
      "written (ringRdbProcess_on_close code s) = written s"
      "launchDone (ringRdbProcess_on_close code s) = launchDone s"
      "clock (ringRdbProcess_on_close code s) = clock s"
      "configurationDone (ringRdbProcess_on_close code s) = configurationDone s"
      by (simp_all add: ringRdbProcess_on_close_def Let_def sendEvent_def console_log_def written_def)
    with p n c ProcessClosed show ?thesis
      by (auto simp: launch_under_way_def)
  next
    case (Elapse dt)
    note f = elapse_facts [OF p, of env dt]
    from c show ?thesis
    proof
      assume "launch_line env pl \<in> set (written s) \<and> n0 < notified (launchDone s)"
      with f n Elapse show ?thesis
        by (auto simp: launch_under_way_def)
    next
      assume a: "(d, pl) \<in> set (waiters (configurationDone s)) \<and> clock s < d"
      show ?thesis
      proof (cases "d \<le> clock s + dt")
        case True
        with a have m: "(d, pl) \<in> set (filter (\<lambda>w. fst w \<le> clock s + dt) (waiters (configurationDone s)))"
          by simp
        then have "0 < length (filter (\<lambda>w. fst w \<le> clock s + dt) (waiters (configurationDone s)))"
          by (metis length_greater_0_conv length_pos_if_in_set)
        with f(4) n have N: "n0 < notified (launchDone (elapse env dt s))" by linarith
        have W: "launch_line env pl \<in> set (written (elapse env dt s))"
          using m f(2) by force
        from f(1) N W show ?thesis
          by (simp add: launch_under_way_def Elapse)
      next
        case False
        with a f n Elapse show ?thesis
          by (auto simp: launch_under_way_def)
      qed
    qed
  qed
qed

lemma launch_under_way_run:
  "launch_under_way env pl d n0 s \<Longrightarrow> launch_under_way env pl d n0 (run env s evs)"
  unfolding run_def
  by (induction evs arbitrary: s) (simp_all add: launch_under_way_step)

lemma case_snoc: "(case xs @ [x] of [] \<Rightarrow> a | _ # _ \<Rightarrow> b) = b"
  by (cases xs) auto

text \<open>
  C3. With the backend spawned, \<open>launchRequest\<close> suspends as a waiter of the
  configuration-done subject with a timer of exactly 10000 milliseconds and writes
  nothing yet. Whatever happens next (further launch, attach, configuration-done and
  disconnect requests, chunks from the backend, its exit, the passing of time), once the
  clock has reached the timer the launch request (type \<open>request\<close>, \<open>seq\<close> the
  response's \<open>request_seq\<close>, command \<open>launch\<close>, the client's arguments) is on the
  standard input of the backend and launch-done has been notified; a configuration-done
  request that follows the launch request resumes it at once. \<open>attachRequest\<close> logs and
  is \<open>launchRequest\<close>.
\<close>

theorem launch_within_timeout:
  assumes "ringRdbProcess s \<noteq> None"
  shows "waiters (configurationDone (launchRequest response args s)) =
           waiters (configurationDone s) @ [(clock s + 10000, \<lparr> pl_response = response, pl_args = args \<rparr>)]
       \<and> written (launchRequest response args s) = written s
       \<and> (clock s + 10000 \<le> clock (run env (launchRequest response args s) evs)
          \<longrightarrow> launch_line env \<lparr> pl_response = response, pl_args = args \<rparr>
                \<in> set (written (run env (launchRequest response args s) evs))
            \<and> notified (launchDone s) < notified (launchDone (run env (launchRequest response args s) evs)))
       \<and> written (configurationDoneRequest env r (launchRequest response args s)) =
           written s @ [launch_line env \<lparr> pl_response = response, pl_args = args \<rparr>]
       \<and> launch_line env \<lparr> pl_response = response, pl_args = args \<rparr> =
           JSON_stringify env
             (JObj [(''type'', JStr ''request''),
                    (''seq'', JNum (Finite (of_int (request_seq response)))),
                    (''command'', JStr ''launch''),
                    (''arguments'', JObj args)]) @ ''\<newline>''
       \<and> attachRequest response args s =
           launchRequest response args (console_log ''attachRequest args:'' [Some (JObj args)] s)
       \<and> ringRdbProcess (console_log ''attachRequest args:'' [Some (JObj args)] s) \<noteq> None"
proof -
  let ?pl = "\<lparr> pl_response = response, pl_args = args \<rparr>"
  let ?s1 = "launchRequest response args s"
  have p1: "ringRdbProcess ?s1 \<noteq> None"
    using assms by (simp add: launchRequest_facts)
  have w: "waiters (configurationDone ?s1) = waiters (configurationDone s) @ [(clock s + 10000, ?pl)]"
    by (simp add: launchRequest_facts)
  have u: "launch_under_way env ?pl (clock s + 10000) (notified (launchDone s)) ?s1"
    using p1 by (simp add: launch_under_way_def launchRequest_facts)
  have 3: "launch_line env ?pl \<in> set (written (run env ?s1 evs))
            \<and> notified (launchDone s) < notified (launchDone (run env ?s1 evs))"
    if "clock s + 10000 \<le> clock (run env ?s1 evs)"
    using launch_under_way_run [OF u, of evs] that by (simp add: launch_under_way_def)
  have la: "last (waiters (configurationDone ?s1)) = (clock s + 10000, ?pl)"
    by (simp add: w)
  have cs: "(case waiters (configurationDone ?s1) of [] \<Rightarrow> []
             | _ # _ \<Rightarrow> [launch_line env (snd (last (waiters (configurationDone ?s1))))])
            = [launch_line env ?pl]"
    by (simp add: w case_snoc)
  have 4: "written (configurationDoneRequest env r ?s1) = written s @ [launch_line env ?pl]"
    using configurationDoneRequest_facts(2) [OF p1, of env r]
    unfolding cs by (simp add: launchRequest_facts)
  have 5: "launch_line env ?pl =
           JSON_stringify env
             (JObj [(''type'', JStr ''request''),
                    (''seq'', JNum (Finite (of_int (request_seq response)))),
                    (''command'', JStr ''launch''),
                    (''arguments'', JObj args)]) @ ''\<newline>''"
    by (simp add: launch_line_def launch_message_def num_of_int_def)
  have 7: "ringRdbProcess (console_log ''attachRequest args:'' [Some (JObj args)] s) \<noteq> None"
    using assms by (simp add: console_log_facts)
  from w 3 4 5 7 show ?thesis
    by (simp add: launchRequest_facts attachRequest_eq)
qed

theorem launch_within_timeout_witness:
  "ringRdbProcess (initializeRequest (new_Response 1 ''initialize'') None None new_session) \<noteq> None
   \<and> written (run example_env
        (launchRequest (new_Response 2 ''launch'') [(''program'', JStr ''main.ring'')]
          (initializeRequest (new_Response 1 ''initialize'') None None new_session))
        [Elapse 4000, Elapse 6000]) = [''launch 2\<newline>'']
   \<and> written (run example_env
        (launchRequest (new_Response 2 ''launch'') [(''program'', JStr ''main.ring'')]
          (initializeRequest (new_Response 1 ''initialize'') None None new_session))
        [Elapse 4000]) = []
   \<and> written (run example_env
        (launchRequest (new_Response 2 ''launch'') [(''program'', JStr ''main.ring'')]
          (initializeRequest (new_Response 1 ''initialize'') None None new_session))
        [Elapse 4000, ConfigurationDoneRequest (new_Response 3 ''configurationDone'')]) = [''launch 2\<newline>'']"
proof -
  let ?s0 = "initializeRequest (new_Response 1 ''initialize'') None None new_session"
  let ?args = "[(''program'', JStr ''main.ring'')]"
  let ?s1 = "launchRequest (new_Response 2 ''launch'') ?args ?s0"
  let ?pl = "\<lparr> pl_response = new_Response 2 ''launch'', pl_args = ?args \<rparr>"
  have p: "ringRdbProcess ?s0 \<noteq> None"
    by (simp add: initializeRequest_def Let_def newRdbProcess_def sendEvent_def)
  have s0: "written ?s0 = []" "clock ?s0 = 0" "waiters (configurationDone ?s0) = []"
    by (simp_all add: initializeRequest_def Let_def newRdbProcess_def sendEvent_def sendResponse_def
        console_log_def written_def new_session_def)
  have l: "launch_line example_env ?pl = ''launch 2\<newline>''"
    by (simp add: launch_line_def launch_message_def example_env_def example_stringify_def
        obj_prop_def num_of_int_def new_Response_def show_int_def show_nat.simps digit_char_def)
  have p1: "ringRdbProcess ?s1 \<noteq> None"
    using p by (simp add: launchRequest_facts)
  have w1: "waiters (configurationDone ?s1) = [(10000, ?pl)]" "clock ?s1 = 0" "written ?s1 = []"
    by (simp_all add: launchRequest_facts s0)
  let ?s2 = "elapse example_env 4000 ?s1"
  note e2 = elapse_facts [OF p1, of example_env 4000]
  have w2: "waiters (configurationDone ?s2) = [(10000, ?pl)]" "clock ?s2 = 4000" "set (written ?s2) = {}"
    using e2 by (simp_all add: w1)
  then have x2: "written ?s2 = []" by simp
  have 1: "written (run example_env ?s1 [Elapse 4000]) = []"
    by (simp add: run_def x2)
  have 2: "written (run example_env ?s1 [Elapse 4000, ConfigurationDoneRequest (new_Response 3 ''configurationDone'')])
      = [''launch 2\<newline>'']"
    using configurationDoneRequest_facts(2) [OF e2(1), of example_env "new_Response 3 ''configurationDone''"]
    by (simp add: run_def x2 w2 l)
  let ?s2' = "?s2\<lparr>clock := 10000, configurationDone := (configurationDone ?s2)\<lparr>waiters := []\<rparr>\<rparr>"
  have e3: "elapse example_env 6000 ?s2 = launchRequest_resume example_env ?pl ?s2'"
    by (simp add: elapse_def [of example_env 6000] Let_def w2)
  have p2: "ringRdbProcess ?s2' \<noteq> None"
    using e2(1) by simp
  have c: "clock (run example_env ?s1 [Elapse 4000, Elapse 6000]) = 10000"
    using elapse_facts(6) [OF e2(1), of example_env 6000] by (simp add: run_def w2)
  have 3: "written (run example_env ?s1 [Elapse 4000, Elapse 6000]) = [''launch 2\<newline>'']"
    using resume_facts(2) [OF p2, of example_env ?pl] x2
    by (simp add: run_def e3 l written_def)
  from launch_within_timeout [OF p, where response = "new_Response 2 ''launch''" and args = ?args
      and env = example_env and evs = "[Elapse 4000, Elapse 6000]"
      and r = "new_Response 3 ''configurationDone''"]
  have "clock ?s0 + 10000 \<le> clock (run example_env ?s1 [Elapse 4000, Elapse 6000])
          \<longrightarrow> launch_line example_env ?pl \<in> set (written (run example_env ?s1 [Elapse 4000, Elapse 6000]))
            \<and> notified (launchDone ?s0) < notified (launchDone (run example_env ?s1 [Elapse 4000, Elapse 6000]))"
    by blast
  with c s0 have "launch_line example_env ?pl \<in> set (written (run example_env ?s1 [Elapse 4000, Elapse 6000]))"
    by simp
  with p 1 2 3 show ?thesis by simp
qed

subsection \<open>The end of the session\<close>

lemma terminate_signals_append [simp]:
  "terminate_signals (a @ b) = terminate_signals a + terminate_signals b"
  by (simp add: terminate_signals_def)

lemma terminate_signals_Nil [simp]: "terminate_signals [] = 0"
  by (simp add: terminate_signals_def)

lemma handle_event_uniform:
  "fst (handle_event env msg s) = fst (handle_event env msg t)
   \<and> (\<exists>new. client (snd (handle_event env msg s)) = client s @ new
            \<and> client (snd (handle_event env msg t)) = client t @ new)"
  by (simp add: handle_event_def Let_def split: sum.splits)

lemma handle_response_uniform:
  "\<exists>new. client (handle_response msg s) = client s @ new
        \<and> client (handle_response msg t) = client t @ new"
  by (simp add: handle_response_def Let_def split: option.splits json.splits)

lemma one_message_uniform:
  "fst (handleRingRdbDapOneMessage env l s) = fst (handleRingRdbDapOneMessage env l t)
   \<and> (\<exists>new. client (snd (handleRingRdbDapOneMessage env l s)) = client s @ new
            \<and> client (snd (handleRingRdbDapOneMessage env l t)) = client t @ new)"
  using handle_event_uniform [of env _ s t] handle_response_uniform [of _ s t]
  by (simp add: handleRingRdbDapOneMessage_def split: option.splits sum.splits)

lemma handle_lines_uniform:
  "\<exists>new. client (snd (handle_lines env ls s)) = client s @ new
        \<and> client (snd (handle_lines env ls t)) = client t @ new"
proof (induction ls arbitrary: s t)
  case Nil
  then show ?case by simp
next
  case (Cons l ls)
  show ?case
  proof (cases "length l > 0")
    case False
    with Cons.IH [of s t] show ?thesis by simp
  next
    case True
    let ?s0 = "showDebugRdbLog ''receive'' l s"
    let ?t0 = "showDebugRdbLog ''receive'' l t"
    obtain e s1 where rs: "handleRingRdbDapOneMessage env l ?s0 = (e, s1)" by fastforce
    obtain e' t1 where rt: "handleRingRdbDapOneMessage env l ?t0 = (e', t1)" by fastforce
    from one_message_uniform [of env l ?s0 ?t0] rs rt obtain n1 where
      ee: "e' = e" and u: "client s1 = client s @ n1" "client t1 = client t @ n1" by auto
    from rt ee have rt': "handleRingRdbDapOneMessage env l ?t0 = (e, t1)" by simp
    show ?thesis
    proof (cases e)
      case (Some err)
      with True rs rt' u show ?thesis by simp
    next
      case None
      from Cons.IH [of s1 t1] obtain n2 where
        "client (snd (handle_lines env ls s1)) = client s1 @ n2"
        "client (snd (handle_lines env ls t1)) = client t1 @ n2" by blast
      with True rs rt' u None show ?thesis by simp
    qed
  qed
qed

lemma chunk_terminate_signals:
  "terminate_signals (client (snd (handleRingRdbDapMessage env data s))) =
     terminate_signals (client s) + chunk_terminates env data"
proof -
  from handle_lines_uniform [of env "split_lf data" s new_session] obtain new where
    "client (snd (handle_lines env (split_lf data) s)) = client s @ new"
    "client (snd (handle_lines env (split_lf data) new_session)) = client new_session @ new" by blast
  then show ?thesis
    by (simp add: chunk_terminates_def handleRingRdbDapMessage_def new_session_client)
qed

lemma client_sendRingRdbDapMessage [simp]:
  "client (sendRingRdbDapMessage env m s) = client s"
  by (simp add: sendRingRdbDapMessage_def Let_def showDebugRdbLog_def console_log_def split: option.splits)

lemma client_launchRequest_resume:
  "client (launchRequest_resume env pl s) =
     client s @ [Event (OutputEvent ''start ring-rdb process success\<newline>'' ''console'')]"
  by (simp add: launchRequest_resume_def Let_def)

lemma client_launchRequest [simp]: "client (launchRequest r args s) = client s"
  by (simp add: launchRequest_def Let_def)

lemma terminate_fold_resume:
  "terminate_signals (client (fold (\<lambda>w. launchRequest_resume env (snd w)) ws s)) =
     terminate_signals (client s)"
  by (induction ws arbitrary: s) (simp_all add: client_launchRequest_resume terminate_signals_def)

lemma terminate_signals_step:
  "terminate_signals (client (step env s ev)) = terminate_signals (client s) + terminates_of env ev"
proof (cases ev)
  case (LaunchRequest r args)
  then show ?thesis by simp
next
  case (AttachRequest r args)
  then show ?thesis by (simp add: attachRequest_def)
next
  case (ConfigurationDoneRequest r)
  then show ?thesis
    by (simp add: configurationDoneRequest_def Let_def client_launchRequest_resume
        terminate_signals_def split: list.splits)
next
  case (DisconnectRequest r args)
  then show ?thesis by (simp add: disconnectRequest_def)
next
  case (BackendData data)
  then show ?thesis by (simp add: chunk_terminate_signals)
next
  case (BackendOutput data)
  then show ?thesis by (simp add: ringRdbProcess_on_stdout_def terminate_signals_def)
next
  case (ProcessClosed code)
  then show ?thesis by (simp add: ringRdbProcess_on_close_def Let_def terminate_signals_def)
next
  case (Elapse d)
  then show ?thesis by (simp add: elapse_def Let_def terminate_fold_resume)
qed

lemma terminate_signals_run:
  "terminate_signals (client (run env s evs)) =
     terminate_signals (client s) + sum_list (map (terminates_of env) evs)"
  unfolding run_def
  by (induction evs arbitrary: s) (simp_all add: terminate_signals_step)

lemma chunk_terminates_line:
  assumes "CHR 0x0A \<notin> set l" "l \<noteq> []" "JSON_parse env l = Some msg"
    and "obj_prop msg ''type'' = Some (JStr ''event'')"
    and "obj_prop msg ''event'' = Some (JStr ''terminated'')
         \<or> obj_prop msg ''event'' = Some (JStr ''exited'')
           \<and> get_prop (obj_prop msg ''body'') ''exitCode'' = Inr c"
  shows "chunk_terminates env l = 1"
proof -
  have g: "get_prop (Some msg) ''type'' = Inr (Some (JStr ''event''))"
    using assms(4) by (cases msg) (simp_all add: get_prop_def obj_prop_def)
  have w: "obj_prop (with_seq_0 msg) k = (if k = ''seq'' then Some (JNum (Finite 0)) else obj_prop msg k)" for k
    using assms(4) by (rule obj_prop_with_seq_0)
  have f: "showDebugRdbLog ''receive'' l new_session = new_session"
    by (simp add: showDebugRdbLog_def new_session_def)
  have "terminate_signals (client (snd (handle_event env msg new_session))) = 1"
    using assms(5)
    by (auto simp: handle_event_def Let_def w terminate_signals_def new_session_client)
  then show ?thesis
    using assms(1,2,3) g
    by (auto simp: chunk_terminates_def handleRingRdbDapMessage_def split_lf_no_lf f
        handleRingRdbDapOneMessage_def split: prod.splits option.splits)
qed

text \<open>
  C4, as the code has it. When the backend process exits, the exit callback hands the
  client an output event, of category \<open>console\<close> for exit code 0 and \<open>stderr\<close> for
  any other code, and then a terminated event. Nothing keeps track of the terminate
  signals already sent: over any sequence of requests, chunks of the backend, exits and
  passing time, the client has received one terminate signal for each exit of the
  backend and those that the handling of the chunks delivered, where a chunk that is one
  \<open>terminated\<close> event, or one \<open>exited\<close> event whose body can be read, delivers one.
  So there is at least one terminate signal once the backend has exited, and a
  disconnect request adds none: \<open>disconnectRequest\<close> hands the client nothing.
\<close>

theorem terminate_signals_of_session:
  "client (ringRdbProcess_on_close code s) =
     client s @ [Event (OutputEvent (''ring-rdb process exited with code '' @ show_exit_code code @ ''\<newline>'')
                          (if code = Some 0 then ''console'' else ''stderr'')),
                 Event TerminatedEvent]
   \<and> terminate_signals (client (run env s evs)) =
       terminate_signals (client s) + sum_list (map (terminates_of env) evs)
   \<and> terminate_signals (client s) < terminate_signals (client (run env s (evs @ ProcessClosed code # evs')))
   \<and> terminates_of env (ProcessClosed code) = 1
   \<and> terminates_of env (DisconnectRequest r args) = 0
   \<and> client (disconnectRequest env r args s) = client s
   \<and> (CHR 0x0A \<notin> set l \<and> l \<noteq> [] \<and> JSON_parse env l = Some msg
        \<and> obj_prop msg ''type'' = Some (JStr ''event'')
        \<and> (obj_prop msg ''event'' = Some (JStr ''terminated'')
           \<or> obj_prop msg ''event'' = Some (JStr ''exited'')
             \<and> get_prop (obj_prop msg ''body'') ''exitCode'' = Inr c)
      \<longrightarrow> terminates_of env (BackendData l) = 1)"
proof -
  have 1: "client (ringRdbProcess_on_close code s) =
     client s @ [Event (OutputEvent (''ring-rdb process exited with code '' @ show_exit_code code @ ''\<newline>'')
                          (if code = Some 0 then ''console'' else ''stderr'')),
                 Event TerminatedEvent]"
    by (simp add: ringRdbProcess_on_close_def Let_def)
  have 3: "terminate_signals (client s) < terminate_signals (client (run env s (evs @ ProcessClosed code # evs')))"
    by (simp add: terminate_signals_run)
  have 6: "client (disconnectRequest env r args s) = client s"
    by (simp add: disconnectRequest_def)
  have 7: "terminates_of env (BackendData l) = 1"
    if "CHR 0x0A \<notin> set l" "l \<noteq> []" "JSON_parse env l = Some msg"
      "obj_prop msg ''type'' = Some (JStr ''event'')"
      "obj_prop msg ''event'' = Some (JStr ''terminated'')
         \<or> obj_prop msg ''event'' = Some (JStr ''exited'')
           \<and> get_prop (obj_prop msg ''body'') ''exitCode'' = Inr c"
    using chunk_terminates_line [OF that] by simp
  from 1 3 6 7 show ?thesis
    by (simp add: terminate_signals_run)
qed

lemma initialized_client:
  "client (initializeRequest r p i new_session) =
     [Response (r\<lparr>body := Some (InitializeBody capabilities [''.'', ''['']) \<rparr>), Event InitializedEvent]"
  by (simp add: initializeRequest_def Let_def newRdbProcess_def new_session_client)

theorem terminate_signals_of_session_witness:
  "client (run example_env (initializeRequest (new_Response 1 ''initialize'') None None new_session)
            [ProcessClosed (Some 0)]) =
     [Response ((new_Response 1 ''initialize'')\<lparr>body := Some (InitializeBody capabilities [''.'', ''['']) \<rparr>),
      Event InitializedEvent,
      Event (OutputEvent ''ring-rdb process exited with code 0\<newline>'' ''console''),
      Event TerminatedEvent]
   \<and> terminate_signals (client (run example_env
         (initializeRequest (new_Response 1 ''initialize'') None None new_session)
         [ProcessClosed (Some 0)])) = 1
   \<and> drop 2 (client (ringRdbProcess_on_close (Some 3)
         (initializeRequest (new_Response 1 ''initialize'') None None new_session))) =
     [Event (OutputEvent ''ring-rdb process exited with code 3\<newline>'' ''stderr''),
      Event TerminatedEvent]"
proof -
  let ?s0 = "initializeRequest (new_Response 1 ''initialize'') None None new_session"
  have d: "show_exit_code (Some 0) = ''0''" "show_exit_code (Some 3) = ''3''"
    by (simp_all add: show_exit_code_def show_int_def show_nat_digit digit_char_def)
  note th = terminate_signals_of_session [where env = example_env and evs' = "[]" and l = "[]"
      and msg = JNull and c = None and r = "new_Response 2 ''disconnect''" and args = "[]"]
  from th [where s = ?s0 and code = "Some 0" and evs = "[ProcessClosed (Some 0)]"]
  have a: "client (ringRdbProcess_on_close (Some 0) ?s0) =
     client ?s0 @ [Event (OutputEvent (''ring-rdb process exited with code '' @ show_exit_code (Some 0) @ ''\<newline>'')
                          ''console''), Event TerminatedEvent]"
    and b: "terminate_signals (client (run example_env ?s0 [ProcessClosed (Some 0)])) =
       terminate_signals (client ?s0) + sum_list (map (terminates_of example_env) [ProcessClosed (Some 0)])"
    by simp_all
  from th [where s = ?s0 and code = "Some 3" and evs = "[]"]
  have e: "client (ringRdbProcess_on_close (Some 3) ?s0) =
     client ?s0 @ [Event (OutputEvent (''ring-rdb process exited with code '' @ show_exit_code (Some 3) @ ''\<newline>'')
                          ''stderr''), Event TerminatedEvent]"
    by simp
  show ?thesis
    using a b e by (simp add: run_def initialized_client d terminate_signals_def)
qed

text \<open>
  The claim C4 itself fails on both paths. A backend that announces its exit with an
  \<open>exited\<close> event and then exits leaves the client with two terminate signals, and a
  disconnect request leaves it with none.
\<close>

theorem terminate_signal_count_counterexample:
  "terminate_signals (client (run example_env
       (initializeRequest (new_Response 1 ''initialize'') None None new_session)
       [BackendData exited_line, ProcessClosed (Some 3)])) = 2
   \<and> drop 2 (client (run example_env
       (initializeRequest (new_Response 1 ''initialize'') None None new_session)
       [BackendData exited_line, ProcessClosed (Some 3)])) =
     [Event (Proxied (JObj [(''type'', JStr ''event''), (''event'', JStr ''exited''),
                            (''seq'', JNum (Finite 0)),
                            (''body'', JObj [(''exitCode'', JNum (Finite 3))])])),
      Event (OutputEvent ''ring process exited with code 3\<newline>'' ''stderr''),
      Event TerminatedEvent,
      Event (OutputEvent ''ring-rdb process exited with code 3\<newline>'' ''stderr''),
      Event TerminatedEvent]
   \<and> terminate_signals (client (run example_env
       (initializeRequest (new_Response 1 ''initialize'') None None new_session)
       [DisconnectRequest (new_Response 2 ''disconnect'') []])) = 0"
proof -
  let ?s0 = "initializeRequest (new_Response 1 ''initialize'') None None new_session"
  have q: "JSON_parse example_env exited_line =
      Some (JObj [(''type'', JStr ''event''), (''event'', JStr ''exited''),
                  (''seq'', JNum (Finite 9)),
                  (''body'', JObj [(''exitCode'', JNum (Finite 3))])])"
    by (simp add: example_env_def example_parse_def threads_line_def exited_line_def)
  have n: "CHR 0x0A \<notin> set exited_line" "exited_line \<noteq> []"
    by (simp_all add: exited_line_def)
  have t: "ToString example_env (Some (JNum (Finite 3))) = ''3''"
    by (simp add: example_env_def show_int_def show_nat_digit digit_char_def)
  have d: "show_exit_code (Some 3) = ''3''"
    by (simp add: show_exit_code_def show_int_def show_nat_digit digit_char_def)
  have f: "showDebugRdbLog_flag ?s0 = False"
    by (simp add: initializeRequest_def Let_def newRdbProcess_def sendEvent_def sendResponse_def
        console_log_def new_session_def)
  have c: "client (run example_env ?s0 [BackendData exited_line, ProcessClosed (Some 3)]) =
      client ?s0 @
     [Event (Proxied (JObj [(''type'', JStr ''event''), (''event'', JStr ''exited''),
                            (''seq'', JNum (Finite 0)),
                            (''body'', JObj [(''exitCode'', JNum (Finite 3))])])),
      Event (OutputEvent ''ring process exited with code 3\<newline>'' ''stderr''),
      Event TerminatedEvent,
      Event (OutputEvent ''ring-rdb process exited with code 3\<newline>'' ''stderr''),
      Event TerminatedEvent]"
    using n
    by (simp add: run_def handleRingRdbDapMessage_def split_lf_no_lf showDebugRdbLog_def f
        handleRingRdbDapOneMessage_def q get_prop_def handle_event_def obj_prop_def
        with_seq_0_def set_prop_def Let_def t d ringRdbProcess_on_close_def)
  have z: "client (run example_env ?s0 [DisconnectRequest (new_Response 2 ''disconnect'') []]) = client ?s0"
    by (simp add: run_def disconnectRequest_def)
  show ?thesis
    unfolding c z by (simp add: initialized_client terminate_signals_def obj_prop_def)
qed

end
